theory Spec2Isabelle
  imports Complex_Main "HOL-Library.Multiset"
begin

section \<open>Conventions of the embedding\<close>

text \<open>
  The Go sources (\<^verbatim>\<open>trader/sizing.go\<close>, \<^verbatim>\<open>decision/engine.go\<close>) are embedded
  shallowly. A \<^verbatim>\<open>float64\<close> is modelled by a \<^typ>\<open>real\<close>: arithmetic is exact and the
  values NaN and infinity do not exist, so a division whose divisor may be zero is written
  out with what IEEE arithmetic does there, or the text says for which inputs the
  definition is meant. A Go \<^verbatim>\<open>int\<close> is an \<^typ>\<open>int\<close> (the only
  arithmetic on one below is counting, far from its bounds), a \<^verbatim>\<open>time.Time\<close> and a
  \<^verbatim>\<open>time.Duration\<close> are integers counting nanoseconds, a Go string is a
  \<^typ>\<open>string\<close>, a Go map is a partial function, and a method with a pointer receiver
  takes the fields it reads and returns the fields it writes.
\<close>

section \<open>Sizing engine (\<^verbatim>\<open>ComputeAdjustedSize\<close>)\<close>

text \<open>
  The margin-safety clamp, lines 59 to 76 of the function. For \<open>available > 0\<close> and a
  zero denominator the Go quotient is \<open>+Inf\<close>: the guard \<open>limit > 0\<close> holds, no size
  exceeds the cushion or the limit, and the size is left as it is.
\<close>

definition marginClamp :: "real \<Rightarrow> int \<Rightarrow> real \<Rightarrow> real \<Rightarrow> real" where
  "marginClamp newSize leverage available feeRate =
     (if leverage > 0 \<and> available > 0 then
        (let denom = 1.0 / real_of_int leverage + feeRate in
         if denom = 0 then newSize
         else
           (let limit = available / denom in
            if limit > 0 then
              (let cushion = 0.92;
                   effLimit = limit * cushion;
                   newSize1 =
                     (if newSize > effLimit then
                        (let ratio = newSize / limit;
                             compression = 0.92 + (0.08 / (1 + exp (12 * (ratio - 0.95))))
                         in limit * compression)
                      else newSize)
               in if newSize1 > limit then limit else newSize1)
            else newSize))
      else newSize)"

definition perfMultiplier :: "real \<Rightarrow> real \<Rightarrow> real" where
  "perfMultiplier winRate profitFactor =
     (if winRate \<ge> 60 \<and> profitFactor \<ge> 1.50 then 1.10
      else if winRate \<ge> 55 \<and> profitFactor \<ge> 1.30 then 1.05
      else if winRate < 45 \<or> profitFactor < 1.00 then 0.65
      else 1.0)"

definition confidenceGate :: "real \<Rightarrow> real \<Rightarrow> real" where
  "confidenceGate multiplier confidence =
     (if confidence > 0 then
        (if confidence < 50 then multiplier * 0.75
         else if confidence < 60 then multiplier * 0.85
         else multiplier)
      else multiplier)"

definition relativeClamp :: "real \<Rightarrow> real \<Rightarrow> real" where
  "relativeClamp base newSize =
     (if base > 0 then
        (let change = newSize / base;
             maxIncrease = 1.25;
             maxDecrease = 0.50
         in if change > maxIncrease then base * maxIncrease
            else if change < maxDecrease then base * maxDecrease
            else newSize)
      else newSize)"

definition ComputeAdjustedSize ::
  "real \<Rightarrow> int \<Rightarrow> real \<Rightarrow> real \<Rightarrow> real \<Rightarrow> real \<Rightarrow> real \<Rightarrow> bool \<Rightarrow> real" where
  "ComputeAdjustedSize base leverage available feeRate winRate profitFactor confidence
       recentLossCooldown =
     (if base \<le> 0 then base
      else
        (let multiplier0 = perfMultiplier winRate profitFactor;
             multiplier1 = confidenceGate multiplier0 confidence;
             multiplier = (if recentLossCooldown then multiplier1 * 0.60 else multiplier1);
             newSize0 = base * multiplier;
             newSize1 = relativeClamp base newSize0;
             newSize2 = marginClamp newSize1 leverage available feeRate
         in if newSize2 < 0 then 0 else newSize2))"

section \<open>Risk-pause state machine\<close>

text \<open>
  The fields of \<^verbatim>\<open>AutoTrader\<close> that the daily reset and
  \<^verbatim>\<open>CheckAndApplyRiskPause\<close> read or write, and the three risk fields of
  \<^verbatim>\<open>AutoTraderConfig\<close>. A threshold is configured when it is positive.
\<close>

record RiskConfig =
  MaxDailyLoss :: real
  MaxDrawdown :: real
  StopTradingTime :: int

record RiskState =
  config :: RiskConfig
  dailyPnL :: real
  lastResetTime :: int
  stopUntil :: int
  callCount :: int
  dayStartEquity :: real
  equityPeak :: real

definition hour :: int where
  "hour = 3600 * 1000000000"

text \<open>Step 2 of \<^verbatim>\<open>runCycle\<close>: the daily reset, at wall-clock time \<open>now\<close>.\<close>

definition dailyResetFires :: "int \<Rightarrow> RiskState \<Rightarrow> bool" where
  "dailyResetFires now tr = (now - lastResetTime tr > 24 * hour)"

definition dailyReset :: "int \<Rightarrow> RiskState \<Rightarrow> RiskState" where
  "dailyReset now tr =
     (if dailyResetFires now tr then tr\<lparr>dailyPnL := 0, lastResetTime := now\<rparr> else tr)"

text \<open>
  The two percentages \<^verbatim>\<open>CheckAndApplyRiskPause\<close> computes, from the fields as
  they stand after the lazy initialisation and the update of the peak.
\<close>

definition dailyLossPct :: "RiskState \<Rightarrow> real" where
  "dailyLossPct tr =
     (if dayStartEquity tr > 0 \<and> dailyPnL tr < 0
      then (- dailyPnL tr / dayStartEquity tr) * 100.0 else 0.0)"

definition drawdownPct :: "RiskState \<Rightarrow> real \<Rightarrow> real" where
  "drawdownPct tr currentEquity =
     (if equityPeak tr > 0 \<and> currentEquity < equityPeak tr
      then ((equityPeak tr - currentEquity) / equityPeak tr) * 100.0 else 0.0)"

text \<open>The updates of the function before it looks at the thresholds.\<close>

definition trackEquity :: "real \<Rightarrow> RiskState \<Rightarrow> RiskState" where
  "trackEquity currentEquity tr =
     (let tr1 = (if dayStartEquity tr \<le> 0 then tr\<lparr>dayStartEquity := currentEquity\<rparr> else tr);
          tr2 = tr1\<lparr>dailyPnL := currentEquity - dayStartEquity tr1\<rparr>
      in if currentEquity > equityPeak tr2 then tr2\<lparr>equityPeak := currentEquity\<rparr> else tr2)"

definition CheckAndApplyRiskPause :: "int \<Rightarrow> real \<Rightarrow> RiskState \<Rightarrow> bool \<times> RiskState" where
  "CheckAndApplyRiskPause now currentEquity tr =
     (let tr3 = trackEquity currentEquity tr;
          lossPct = dailyLossPct tr3;
          ddPct = drawdownPct tr3 currentEquity;
          (pause1, tr4) =
            (if MaxDailyLoss (config tr3) > 0 \<and> lossPct \<ge> MaxDailyLoss (config tr3)
             then (True, tr3\<lparr>stopUntil := now + StopTradingTime (config tr3)\<rparr>)
             else (False, tr3));
          (pause2, tr5) =
            (if MaxDrawdown (config tr4) > 0 \<and> ddPct \<ge> MaxDrawdown (config tr4)
             then (True, tr4\<lparr>stopUntil := now + StopTradingTime (config tr4)\<rparr>)
             else (pause1, tr4))
      in (pause2, tr5))"

text \<open>
  A session: \<^verbatim>\<open>CheckAndApplyRiskPause\<close> invoked once per observation, each a pair of
  the wall-clock time and the equity; the list of states after each invocation.
\<close>

fun riskSession :: "RiskState \<Rightarrow> (int \<times> real) list \<Rightarrow> RiskState list" where
  "riskSession tr [] = []"
| "riskSession tr ((now, eq) # obs) =
     (let tr' = snd (CheckAndApplyRiskPause now eq tr) in tr' # riskSession tr' obs)"

text \<open>
  The session of section 8 of the specification: day-start equity 1000, a maximum daily
  loss of 5 percent, no drawdown threshold, a pause of one hour.
\<close>

definition exampleTrader :: RiskState where
  "exampleTrader =
     \<lparr>config = \<lparr>MaxDailyLoss = 5, MaxDrawdown = 0, StopTradingTime = hour\<rparr>,
      dailyPnL = 0, lastResetTime = 0, stopUntil = 0, callCount = 1,
      dayStartEquity = 1000, equityPeak = 1000\<rparr>"

section \<open>Decisions and their execution order\<close>

text \<open>The struct \<^verbatim>\<open>decision.Decision\<close>.\<close>

record Decision =
  Symbol :: string
  Action :: string
  Leverage :: int
  PositionSizeUSD :: real
  StopLoss :: real
  TakeProfit :: real
  NewStopLoss :: real
  NewTakeProfit :: real
  ClosePercentage :: real
  Confidence :: int
  RiskUSD :: real
  Reasoning :: string

definition getActionPriority :: "string \<Rightarrow> int" where
  "getActionPriority action =
     (if action = ''close_long'' \<or> action = ''close_short'' \<or> action = ''partial_close'' then 1
      else if action = ''update_stop_loss'' \<or> action = ''update_take_profit'' then 2
      else if action = ''open_long'' \<or> action = ''open_short'' then 3
      else if action = ''hold'' \<or> action = ''wait'' then 4
      else 999)"

definition swap :: "nat \<Rightarrow> nat \<Rightarrow> 'a list \<Rightarrow> 'a list" where
  "swap i j xs = xs[i := xs ! j, j := xs ! i]"

text \<open>
  The two nested loops of \<^verbatim>\<open>sortDecisionsByPriority\<close>, over the copy of the slice.
  The inner loop runs \<open>j\<close> from its start to the end of the slice and exchanges the
  elements at \<open>i\<close> and \<open>j\<close> when the one at \<open>i\<close> has the larger priority number; both
  indices are in range wherever the loops read the slice.
\<close>

function innerLoop :: "nat \<Rightarrow> nat \<Rightarrow> Decision list \<Rightarrow> Decision list" where
  "innerLoop i j sorted' =
     (if j < length sorted' then
        innerLoop i (Suc j)
          (if getActionPriority (Action (sorted' ! i)) > getActionPriority (Action (sorted' ! j))
           then swap i j sorted' else sorted')
      else sorted')"
  by pat_completeness auto
termination
  by (relation "measure (\<lambda>(i, j, sorted'). length sorted' - j)") (auto simp: swap_def)

declare innerLoop.simps [simp del]

lemma length_innerLoop: "length (innerLoop i j sorted') = length sorted'"
  by (induction i j sorted' rule: innerLoop.induct)
     (subst innerLoop.simps, simp add: swap_def)

function outerLoop :: "nat \<Rightarrow> Decision list \<Rightarrow> Decision list" where
  "outerLoop i sorted' =
     (if i + 1 < length sorted' then outerLoop (Suc i) (innerLoop i (Suc i) sorted')
      else sorted')"
  by pat_completeness auto
termination
  by (relation "measure (\<lambda>(i, sorted'). length sorted' - i)") (auto simp: length_innerLoop)

declare outerLoop.simps [simp del]

text \<open>
  The invariant of the outer loop: the first \<open>i\<close> elements are in order of priority, and
  none of them has a larger priority number than an element that comes later.
\<close>

definition sortedUpTo :: "nat \<Rightarrow> Decision list \<Rightarrow> bool" where
  "sortedUpTo i xs \<longleftrightarrow>
     sorted (map (\<lambda>d. getActionPriority (Action d)) (take i xs))
     \<and> (\<forall>a \<in> set (take i xs). \<forall>b \<in> set (drop i xs).
           getActionPriority (Action a) \<le> getActionPriority (Action b))"

definition sortDecisionsByPriority :: "Decision list \<Rightarrow> Decision list" where
  "sortDecisionsByPriority decisions =
     (if length decisions \<le> 1 then decisions else outerLoop 0 decisions)"

text \<open>
  What the specification asks of the sequencer, in its words: a stable sort by priority
  class. \<^const>\<open>sort_key\<close> is the stable insertion sort of the library.
\<close>

definition stableSortByPriority :: "Decision list \<Rightarrow> Decision list" where
  "stableSortByPriority decisions = sort_key (\<lambda>d. getActionPriority (Action d)) decisions"

definition mkDecision :: "string \<Rightarrow> string \<Rightarrow> Decision" where
  "mkDecision smb action =
     \<lparr>Symbol = smb, Action = action, Leverage = 0, PositionSizeUSD = 0, StopLoss = 0,
      TakeProfit = 0, NewStopLoss = 0, NewTakeProfit = 0, ClosePercentage = 0,
      Confidence = 0, RiskUSD = 0, Reasoning = []\<rparr>"

section \<open>Decision validator\<close>

text \<open>
  Of \<^verbatim>\<open>market.Data\<close> and \<^verbatim>\<open>decision.Context\<close> the fields the validator and
  \<^verbatim>\<open>parseFullDecisionResponse\<close> read. The market data of a symbol and its longer-term
  context are pointers, \<open>None\<close> when nil; a nil map is the empty map.
\<close>

record LongerTermData =
  ATR14 :: real

record MarketData =
  CurrentPrice :: real
  LongerTermContext :: "LongerTermData option"

record Context =
  TotalEquity :: real
  BTCETHLeverage :: int
  AltcoinLeverage :: int
  MarketDataMap :: "string \<rightharpoonup> MarketData option"

text \<open>One constructor for each error the validator returns, with the values of its message.\<close>

datatype ValidationError =
    InvalidAction string
  | LeverageOutOfRange string int int
  | PositionSizeNotPositive real
  | PositionSizeTooSmall string real real
  | PositionSizeTooLarge string real real
  | StopOrTakeNotPositive
  | LongStopNotBelowTake
  | ShortStopNotAboveTake
  | StopTakeTooClose real
  | RiskRewardTooLow real real
  | RiskBudgetExceeded real real
  | NewStopLossNotPositive real
  | NewTakeProfitNotPositive real
  | ClosePercentageOutOfRange real

definition validActions :: "string list" where
  "validActions =
     [''open_long'', ''open_short'', ''close_long'', ''close_short'', ''update_stop_loss'',
      ''update_take_profit'', ''partial_close'', ''hold'', ''wait'']"

text \<open>The ATR14 and the price the validator finds for a symbol, 0 where there is none.\<close>

definition atrAndPrice :: "Context option \<Rightarrow> string \<Rightarrow> real \<times> real" where
  "atrAndPrice ctx smb =
     (case ctx of
        None \<Rightarrow> (0, 0)
      | Some c \<Rightarrow>
          (case MarketDataMap c smb of
             Some (Some md) \<Rightarrow>
               (case LongerTermContext md of
                  Some lt \<Rightarrow> (ATR14 lt, CurrentPrice md)
                | None \<Rightarrow> (0, CurrentPrice md))
           | _ \<Rightarrow> (0, 0)))"

text \<open>
  The checks of an open decision, in the order of the source. The synthetic entry price
  lies strictly between the stop and the take, both positive where it is computed, so no
  division below has a zero divisor.
\<close>

definition validateOpen ::
  "Decision \<Rightarrow> real \<Rightarrow> int \<Rightarrow> int \<Rightarrow> Context option \<Rightarrow> ValidationError option" where
  "validateOpen d accountEquity btcEthLeverage altcoinLeverage ctx =
     (let major = (Symbol d = ''BTCUSDT'' \<or> Symbol d = ''ETHUSDT'');
          maxLeverage = (if major then btcEthLeverage else altcoinLeverage);
          maxPositionValue = (if major then accountEquity * 10 else accountEquity * 1.5);
          minPositionSizeGeneral = 12.0;
          minPositionSizeBTCETH = 60.0;
          tolerance = maxPositionValue * 0.01;
          long = (Action d = ''open_long'');
          entryPrice = (if long then StopLoss d + (TakeProfit d - StopLoss d) * 0.2
                        else StopLoss d - (StopLoss d - TakeProfit d) * 0.2);
          riskPercent = (if long then (entryPrice - StopLoss d) / entryPrice * 100
                         else (StopLoss d - entryPrice) / entryPrice * 100);
          rewardPercent = (if long then (TakeProfit d - entryPrice) / entryPrice * 100
                           else (entryPrice - TakeProfit d) / entryPrice * 100);
          riskRewardRatio = (if riskPercent > 0 then rewardPercent / riskPercent else 0);
          atr14 = fst (atrAndPrice ctx (Symbol d));
          price = snd (atrAndPrice ctx (Symbol d));
          minATRMultiple = 1.0;
          minDist = minATRMultiple * atr14;
          rrrMin = (if atr14 > 0 \<and> price > 0 then
                      (let vol = atr14 / price in
                       if vol < 0.01 then 2.5 else if vol \<ge> 0.02 then 3.5 else 3.0)
                    else 3.0);
          estimatedRiskUSD = (riskPercent / 100.0) * PositionSizeUSD d
      in if Leverage d \<le> 0 \<or> Leverage d > maxLeverage
           then Some (LeverageOutOfRange (Symbol d) maxLeverage (Leverage d))
         else if PositionSizeUSD d \<le> 0
           then Some (PositionSizeNotPositive (PositionSizeUSD d))
         else if major \<and> PositionSizeUSD d < minPositionSizeBTCETH
           then Some (PositionSizeTooSmall (Symbol d) (PositionSizeUSD d) minPositionSizeBTCETH)
         else if \<not> major \<and> PositionSizeUSD d < minPositionSizeGeneral
           then Some (PositionSizeTooSmall (Symbol d) (PositionSizeUSD d) minPositionSizeGeneral)
         else if PositionSizeUSD d > maxPositionValue + tolerance
           then Some (PositionSizeTooLarge (Symbol d) maxPositionValue (PositionSizeUSD d))
         else if StopLoss d \<le> 0 \<or> TakeProfit d \<le> 0
           then Some StopOrTakeNotPositive
         else if long \<and> StopLoss d \<ge> TakeProfit d
           then Some LongStopNotBelowTake
         else if \<not> long \<and> StopLoss d \<le> TakeProfit d
           then Some ShortStopNotAboveTake
         else if atr14 > 0 \<and> long
                 \<and> (entryPrice - StopLoss d < minDist \<or> TakeProfit d - entryPrice < minDist)
           then Some (StopTakeTooClose minDist)
         else if atr14 > 0 \<and> \<not> long
                 \<and> (StopLoss d - entryPrice < minDist \<or> entryPrice - TakeProfit d < minDist)
           then Some (StopTakeTooClose minDist)
         else if riskRewardRatio < rrrMin
           then Some (RiskRewardTooLow riskRewardRatio rrrMin)
         else if RiskUSD d > 0 \<and> estimatedRiskUSD > RiskUSD d
           then Some (RiskBudgetExceeded estimatedRiskUSD (RiskUSD d))
         else None)"

definition validateDecision ::
  "Decision \<Rightarrow> real \<Rightarrow> int \<Rightarrow> int \<Rightarrow> Context option \<Rightarrow> ValidationError option" where
  "validateDecision d accountEquity btcEthLeverage altcoinLeverage ctx =
     (if Action d \<notin> set validActions then Some (InvalidAction (Action d))
      else
        (case (if Action d = ''open_long'' \<or> Action d = ''open_short''
               then validateOpen d accountEquity btcEthLeverage altcoinLeverage ctx
               else None) of
           Some e \<Rightarrow> Some e
         | None \<Rightarrow>
             if Action d = ''update_stop_loss'' \<and> NewStopLoss d \<le> 0
               then Some (NewStopLossNotPositive (NewStopLoss d))
             else if Action d = ''update_take_profit'' \<and> NewTakeProfit d \<le> 0
               then Some (NewTakeProfitNotPositive (NewTakeProfit d))
             else if Action d = ''partial_close''
                     \<and> (ClosePercentage d \<le> 0 \<or> ClosePercentage d > 100)
               then Some (ClosePercentageOutOfRange (ClosePercentage d))
             else None))"

text \<open>
  The loop of \<^verbatim>\<open>validateDecisions\<close> from index \<open>i\<close> on: the number (from 1) and the
  error of the first decision that fails, \<open>None\<close> when none does.
\<close>

fun validateFrom ::
  "nat \<Rightarrow> Decision list \<Rightarrow> real \<Rightarrow> int \<Rightarrow> int \<Rightarrow> Context option
     \<Rightarrow> (nat \<times> ValidationError) option" where
  "validateFrom i [] accountEquity btcEthLeverage altcoinLeverage ctx = None"
| "validateFrom i (decision # rest) accountEquity btcEthLeverage altcoinLeverage ctx =
     (case validateDecision decision accountEquity btcEthLeverage altcoinLeverage ctx of
        Some err \<Rightarrow> Some (i + 1, err)
      | None \<Rightarrow> validateFrom (i + 1) rest accountEquity btcEthLeverage altcoinLeverage ctx)"

definition validateDecisions ::
  "Decision list \<Rightarrow> real \<Rightarrow> int \<Rightarrow> int \<Rightarrow> Context option
     \<Rightarrow> (nat \<times> ValidationError) option" where
  "validateDecisions decisions accountEquity btcEthLeverage altcoinLeverage ctx =
     validateFrom 0 decisions accountEquity btcEthLeverage altcoinLeverage ctx"

section \<open>From the response to the execution\<close>

text \<open>
  The struct \<^verbatim>\<open>FullDecision\<close>, the errors of the parser and of
  \<^verbatim>\<open>parseFullDecisionResponse\<close>, and those of
  \<^verbatim>\<open>GetFullDecisionWithCustomPrompt\<close>.
\<close>

record FullDecision =
  SystemPrompt :: string
  UserPrompt :: string
  CoTTrace :: string
  Decisions :: "Decision list"
  Timestamp :: int

datatype ParseError = Unparsable string

datatype ResponseError =
    StrictParsingFailed ParseError
  | DecisionValidationFailed nat ValidationError

datatype DecisionCallError =
    AICallFailed string
  | ResponseParseFailed ResponseError

definition emptyFullDecision :: FullDecision where
  "emptyFullDecision =
     \<lparr>SystemPrompt = [], UserPrompt = [], CoTTrace = [], Decisions = [], Timestamp = 0\<rparr>"

text \<open>
  \<^verbatim>\<open>parseFullDecisionResponse\<close>. Its two parsers are parameters: \<open>extract\<close> stands for
  \<^verbatim>\<open>extractDecisionsStrict\<close> and \<open>cotOf\<close> for the trimmed result of
  \<^verbatim>\<open>extractCoTTrace\<close>.
\<close>

definition parseFullDecisionResponse ::
  "(string \<Rightarrow> ParseError + Decision list) \<Rightarrow> (string \<Rightarrow> string) \<Rightarrow> string \<Rightarrow> Context
     \<Rightarrow> FullDecision \<times> ResponseError option" where
  "parseFullDecisionResponse extract cotOf aiResponse ctx =
     (let cot = cotOf aiResponse in
      case extract aiResponse of
        Inl err \<Rightarrow>
          (emptyFullDecision\<lparr>CoTTrace := cot, Decisions := []\<rparr>, Some (StrictParsingFailed err))
      | Inr decisions \<Rightarrow>
          (case validateDecisions decisions (TotalEquity ctx) (BTCETHLeverage ctx)
                  (AltcoinLeverage ctx) (Some ctx) of
             Some (n, err) \<Rightarrow>
               (emptyFullDecision\<lparr>CoTTrace := cot, Decisions := decisions\<rparr>,
                Some (DecisionValidationFailed n err))
           | None \<Rightarrow> (emptyFullDecision\<lparr>CoTTrace := cot, Decisions := decisions\<rparr>, None)))"

text \<open>
  \<^verbatim>\<open>GetFullDecisionWithCustomPrompt\<close> from the call of the decision maker on: \<open>reply\<close>
  is what the call returned (\<open>Inl\<close> its error), the two prompts are those built before it,
  and \<open>now\<close> is the clock reading for the timestamp. A nil decision is \<open>None\<close>.
\<close>

definition GetFullDecisionWithCustomPrompt ::
  "(string \<Rightarrow> ParseError + Decision list) \<Rightarrow> (string \<Rightarrow> string) \<Rightarrow> string \<Rightarrow> string
     \<Rightarrow> int \<Rightarrow> string + string \<Rightarrow> Context \<Rightarrow> FullDecision option \<times> DecisionCallError option"
  where
  "GetFullDecisionWithCustomPrompt extract cotOf systemPrompt userPrompt now reply ctx =
     (case reply of
        Inl err \<Rightarrow> (None, Some (AICallFailed err))
      | Inr aiResponse \<Rightarrow>
          (case parseFullDecisionResponse extract cotOf aiResponse ctx of
             (decision, Some err) \<Rightarrow> (Some decision, Some (ResponseParseFailed err))
           | (decision, None) \<Rightarrow>
               (Some (decision\<lparr>Timestamp := now, SystemPrompt := systemPrompt,
                                UserPrompt := userPrompt\<rparr>), None)))"

section \<open>Size adjustment by recent performance\<close>

text \<open>
  The fields of \<^verbatim>\<open>logger.TradeOutcome\<close> that \<^verbatim>\<open>adjustDecisionsByPerformance\<close>
  reads (the type is declared in a package outside these sources); its symbol and side are
  named \<open>TradeSymbol\<close> and \<open>TradeSide\<close> here, apart from the fields of a decision.
\<close>

record TradeOutcome =
  TradeSymbol :: string
  TradeSide :: string
  PnLPct :: real
  CloseTime :: int

definition minute :: int where
  "minute = 60 * 1000000000"

definition sideOfAction :: "string \<Rightarrow> string" where
  "sideOfAction action = (if action = ''open_short'' then ''short'' else ''long'')"

text \<open>
  The loop over \<^verbatim>\<open>recentTrades\<close>, from the last index down to 0; its argument is the
  slice in the order the loop visits it. The loop leaves at the first trade of the same
  symbol and side, whether or not it raised the flag.
\<close>

fun cooldownScan :: "int \<Rightarrow> string \<Rightarrow> string \<Rightarrow> TradeOutcome list \<Rightarrow> bool" where
  "cooldownScan now smb sd [] = False"
| "cooldownScan now smb sd (t # ts) =
     (if TradeSymbol t = smb \<and> TradeSide t = sd
      then (PnLPct t \<le> -15 \<and> now - CloseTime t < 90 * minute)
      else cooldownScan now smb sd ts)"

definition recentLossCooldownFlag :: "int \<Rightarrow> TradeOutcome list \<Rightarrow> Decision \<Rightarrow> bool" where
  "recentLossCooldownFlag now recentTrades d =
     cooldownScan now (Symbol d) (sideOfAction (Action d)) (rev recentTrades)"

text \<open>
  What the function takes from its surroundings: the available balance of the context,
  whether the latest records show a margin error, and the win rate, profit factor and
  trades of the performance analysis (0, 0 and no trades when there is none).
\<close>

record AdjustEnv =
  envAvailable :: real
  envHadRecentMarginError :: bool
  envWinRate :: real
  envProfitFactor :: real
  envRecentTrades :: "TradeOutcome list"

definition takerFeeRate :: real where
  "takerFeeRate = 0.0004"

text \<open>One iteration of the loop over the decisions, with the clock reading \<open>now\<close>.\<close>

definition adjustDecision :: "AdjustEnv \<Rightarrow> int \<Rightarrow> Decision \<Rightarrow> Decision" where
  "adjustDecision env now d =
     (if Action d \<noteq> ''open_long'' \<and> Action d \<noteq> ''open_short'' then d
      else
        (let cooldown = recentLossCooldownFlag now (envRecentTrades env) d;
             base = (if PositionSizeUSD d \<le> 0 then 0 else PositionSizeUSD d);
             newSize = ComputeAdjustedSize base (Leverage d) (envAvailable env) takerFeeRate
                         (envWinRate env) (envProfitFactor env) (real_of_int (Confidence d)) cooldown;
             newSize' = (if envHadRecentMarginError env \<and> newSize > 0 then newSize * 0.85
                         else newSize)
         in d\<lparr>PositionSizeUSD := newSize'\<rparr>))"

text \<open>The loop; \<open>clock k\<close> is what \<^verbatim>\<open>time.Now()\<close> returns in iteration \<open>k\<close>.\<close>

fun adjustLoop :: "AdjustEnv \<Rightarrow> (nat \<Rightarrow> int) \<Rightarrow> nat \<Rightarrow> Decision list \<Rightarrow> Decision list" where
  "adjustLoop env clock k [] = []"
| "adjustLoop env clock k (d # ds) =
     adjustDecision env (clock k) d # adjustLoop env clock (Suc k) ds"

definition adjustDecisionsByPerformance ::
  "AdjustEnv \<Rightarrow> (nat \<Rightarrow> int) \<Rightarrow> Decision list \<Rightarrow> Decision list" where
  "adjustDecisionsByPerformance env clock decisions = adjustLoop env clock 0 decisions"

text \<open>
  The words of the specification for the cooldown: a trade outcome of the same symbol and
  side as the decision, and one that closed within the last 90 minutes with a profit of
  at most minus 15 percent.
\<close>

definition sameMarket :: "Decision \<Rightarrow> TradeOutcome \<Rightarrow> bool" where
  "sameMarket d t \<longleftrightarrow> TradeSymbol t = Symbol d \<and> TradeSide t = sideOfAction (Action d)"

definition largeRecentLoss :: "int \<Rightarrow> TradeOutcome \<Rightarrow> bool" where
  "largeRecentLoss now t \<longleftrightarrow> PnLPct t \<le> -15 \<and> now - CloseTime t < 90 * minute"

definition lossTrade :: TradeOutcome where
  "lossTrade = \<lparr>TradeSymbol = ''BTCUSDT'', TradeSide = ''long'', PnLPct = -20, CloseTime = 0\<rparr>"

definition winTrade :: TradeOutcome where
  "winTrade =
     \<lparr>TradeSymbol = ''BTCUSDT'', TradeSide = ''long'', PnLPct = 5, CloseTime = 5 * minute\<rparr>"

section \<open>The decision phase of a cycle\<close>

text \<open>
  Of \<^verbatim>\<open>logger.DecisionRecord\<close> (a package outside these sources) the fields that
  \<^verbatim>\<open>runCycle\<close> sets from the decision: the error message is kept as the error it
  prints, the JSON of the decisions as the decisions it serialises, and the action records
  as the decisions handed to the execution, each with whether it succeeded. The prompt and
  trace fields are named apart from those of \<^verbatim>\<open>FullDecision\<close>.
\<close>

record DecisionRecord =
  Success :: bool
  ErrorMessage :: "DecisionCallError option"
  RecordSystemPrompt :: string
  RecordInputPrompt :: string
  RecordCoTTrace :: string
  DecisionJSON :: "Decision list"
  RecordDecisions :: "(Decision \<times> bool) list"

text \<open>
  What a cycle leaves behind: the record it hands to \<^verbatim>\<open>LogDecision\<close>, the decisions
  it hands to \<^verbatim>\<open>executeDecisionWithRecord\<close>, in order, and the error it returns.
\<close>

record CycleOutcome =
  loggedRecord :: DecisionRecord
  executed :: "Decision list"
  returned :: "DecisionCallError option"

definition newRecord :: DecisionRecord where
  "newRecord =
     \<lparr>Success = True, ErrorMessage = None, RecordSystemPrompt = [], RecordInputPrompt = [],
      RecordCoTTrace = [], DecisionJSON = [], RecordDecisions = []\<rparr>"

text \<open>
  \<^verbatim>\<open>runCycle\<close> from step 5 on, given what
  \<^verbatim>\<open>GetFullDecisionWithCustomPrompt\<close> returned. \<open>execute d\<close> tells whether the
  execution of \<open>d\<close> returns without an error; a failure does not stop the loop. The result
  is \<open>None\<close> where the Go code dereferences a nil decision. The lines of the execution
  log are not modelled.
\<close>

definition runCycleFromDecision ::
  "AdjustEnv \<Rightarrow> (nat \<Rightarrow> int) \<Rightarrow> (Decision \<Rightarrow> bool)
     \<Rightarrow> FullDecision option \<times> DecisionCallError option \<Rightarrow> CycleOutcome option" where
  "runCycleFromDecision env clock execute result =
     (case result of
        (decision, err) \<Rightarrow>
          (let record =
                 (case decision of
                    None \<Rightarrow> newRecord
                  | Some fd \<Rightarrow>
                      newRecord\<lparr>RecordSystemPrompt := SystemPrompt fd,
                                RecordInputPrompt := UserPrompt fd,
                                RecordCoTTrace := CoTTrace fd,
                                DecisionJSON :=
                                  (if length (Decisions fd) > 0 then Decisions fd else [])\<rparr>)
           in case err of
                Some e \<Rightarrow>
                  Some \<lparr>loggedRecord = record\<lparr>Success := False, ErrorMessage := Some e\<rparr>,
                        executed = [], returned = Some e\<rparr>
              | None \<Rightarrow>
                  (case decision of
                     None \<Rightarrow> None
                   | Some fd \<Rightarrow>
                       (let sortedDecisions = sortDecisionsByPriority (Decisions fd);
                            adjusted = adjustDecisionsByPerformance env clock sortedDecisions
                        in Some \<lparr>loggedRecord =
                                   record\<lparr>RecordDecisions :=
                                            map (\<lambda>d. (d, execute d)) adjusted\<rparr>,
                                 executed = adjusted, returned = None\<rparr>))))"

text \<open>
  A context with an equity of 1000 and no market data, a decision that holds and one that
  asks for an action the validator does not know.
\<close>

definition exampleContext :: Context where
  "exampleContext =
     \<lparr>TotalEquity = 1000, BTCETHLeverage = 5, AltcoinLeverage = 10,
      MarketDataMap = Map.empty\<rparr>"

definition exampleEnv :: AdjustEnv where
  "exampleEnv =
     \<lparr>envAvailable = 1000, envHadRecentMarginError = False, envWinRate = 50,
      envProfitFactor = 1.2, envRecentTrades = []\<rparr>"

definition exampleBatch :: "Decision list" where
  "exampleBatch = [mkDecision ''BTCUSDT'' ''hold'', mkDecision ''ETHUSDT'' ''buy'']"

section \<open>Positions, the peak cache and the drawdown monitor\<close>

text \<open>
  A position as the exchange adapter returns it (\<^verbatim>\<open>GetPositions\<close>): a map from
  strings to values, read under the keys \<^verbatim>\<open>symbol\<close>, \<^verbatim>\<open>side\<close>, \<^verbatim>\<open>entryPrice\<close>,
  \<^verbatim>\<open>markPrice\<close>, \<^verbatim>\<open>positionAmt\<close>, \<^verbatim>\<open>unRealizedProfit\<close>, \<^verbatim>\<open>liquidationPrice\<close>
  and \<^verbatim>\<open>leverage\<close>. The record holds a well-typed map; only the leverage is read with a
  checked type assertion and may be missing.
\<close>

record Position =
  pos_symbol :: string
  pos_side :: string
  pos_entryPrice :: real
  pos_markPrice :: real
  pos_positionAmt :: real
  pos_unRealizedProfit :: real
  pos_liquidationPrice :: real
  pos_leverage :: "real option"

text \<open>The session-wide caches of \<^verbatim>\<open>AutoTrader\<close>.\<close>

record Tracker =
  positionFirstSeenTime :: "string \<rightharpoonup> int"
  peakPnLCache :: "string \<rightharpoonup> real"
  drawdownBreachCount :: "string \<rightharpoonup> int"
  drawdownBreachWindow :: int

definition posKeyOf :: "string \<Rightarrow> string \<Rightarrow> string" where
  "posKeyOf smb sd = smb @ ''_'' @ sd"

text \<open>Reading a Go map of numbers at a key it does not hold gives 0.\<close>

definition peakAt :: "Tracker \<Rightarrow> string \<Rightarrow> real" where
  "peakAt tk key = (case peakPnLCache tk key of None \<Rightarrow> 0 | Some v \<Rightarrow> v)"

definition breachCountAt :: "Tracker \<Rightarrow> string \<Rightarrow> int" where
  "breachCountAt tk key = (case drawdownBreachCount tk key of None \<Rightarrow> 0 | Some c \<Rightarrow> c)"

definition UpdatePeakPnL :: "Tracker \<Rightarrow> string \<Rightarrow> string \<Rightarrow> real \<Rightarrow> Tracker" where
  "UpdatePeakPnL tk smb sd currentPnLPct =
     (let posKey = posKeyOf smb sd in
      case peakPnLCache tk posKey of
        Some peak \<Rightarrow>
          (if currentPnLPct > peak
           then tk\<lparr>peakPnLCache := (peakPnLCache tk)(posKey \<mapsto> currentPnLPct)\<rparr> else tk)
      | None \<Rightarrow> tk\<lparr>peakPnLCache := (peakPnLCache tk)(posKey \<mapsto> currentPnLPct)\<rparr>)"

definition ClearPeakPnLCache :: "Tracker \<Rightarrow> string \<Rightarrow> string \<Rightarrow> Tracker" where
  "ClearPeakPnLCache tk smb sd =
     tk\<lparr>peakPnLCache := (peakPnLCache tk)(posKeyOf smb sd := None)\<rparr>"

text \<open>
  The leverage of a position record: 10 when the record has none, else the number
  converted to an integer, which truncates towards zero.
\<close>

definition leverageOf :: "Position \<Rightarrow> int" where
  "leverageOf pos =
     (case pos_leverage pos of
        None \<Rightarrow> 10
      | Some lev \<Rightarrow> (if lev \<ge> 0 then \<lfloor>lev\<rfloor> else \<lceil>lev\<rceil>))"

text \<open>
  The profit percentage the monitor computes for a position. An entry price of 0 makes
  the Go value infinite or NaN; the model is meant for entry prices other than 0.
\<close>

definition currentPnLPctOf :: "Position \<Rightarrow> real" where
  "currentPnLPctOf pos =
     (if pos_side pos = ''long''
      then ((pos_markPrice pos - pos_entryPrice pos) / pos_entryPrice pos)
             * real_of_int (leverageOf pos) * 100
      else ((pos_entryPrice pos - pos_markPrice pos) / pos_entryPrice pos)
             * real_of_int (leverageOf pos) * 100)"

text \<open>
  The calls the monitor makes on the exchange adapter; the number is the quantity, 0 for
  the whole position. The adapter is a function that tells whether a call returns without
  an error.
\<close>

datatype TraderCall = CloseLong string real | CloseShort string real

definition emergencyClosePosition ::
  "(TraderCall \<Rightarrow> bool) \<Rightarrow> string \<Rightarrow> string \<Rightarrow> TraderCall list \<times> bool" where
  "emergencyClosePosition trader smb sd =
     (if sd = ''long'' then ([CloseLong smb 0], trader (CloseLong smb 0))
      else if sd = ''short'' then ([CloseShort smb 0], trader (CloseShort smb 0))
      else ([], False))"

text \<open>The drawdown the monitor computes from the peak it read and the current value.\<close>

definition drawdownFromPeak :: "real \<Rightarrow> real \<Rightarrow> real" where
  "drawdownFromPeak peakPnLPct currentPnLPct =
     (if peakPnLPct > 0 \<and> currentPnLPct < peakPnLPct
      then ((peakPnLPct - currentPnLPct) / peakPnLPct) * 100 else 0)"

text \<open>
  The breach condition of one check, on the tracker as the check finds it: the peak is
  the cached one, or the current value when the cache has none.
\<close>

definition breachCondition :: "Tracker \<Rightarrow> string \<Rightarrow> string \<Rightarrow> real \<Rightarrow> bool" where
  "breachCondition tk smb sd currentPnLPct =
     (let peakPnLPct = (case peakPnLCache tk (posKeyOf smb sd) of
                          None \<Rightarrow> currentPnLPct | Some peak \<Rightarrow> peak)
      in currentPnLPct > 5.0 \<and> drawdownFromPeak peakPnLPct currentPnLPct \<ge> 40.0)"

text \<open>
  The body of the loop of \<^verbatim>\<open>checkPositionDrawdown\<close> for one position, from the key
  on; it returns the tracker and the calls made on the adapter.
\<close>

definition checkPosition ::
  "(TraderCall \<Rightarrow> bool) \<Rightarrow> Tracker \<Rightarrow> string \<Rightarrow> string \<Rightarrow> real
     \<Rightarrow> Tracker \<times> TraderCall list" where
  "checkPosition trader tk smb sd currentPnLPct =
     (let posKey = posKeyOf smb sd;
          breach = breachCondition tk smb sd currentPnLPct;
          tk1 = UpdatePeakPnL tk smb sd currentPnLPct
      in if breach then
           (let tk2 = tk1\<lparr>drawdownBreachCount :=
                         (drawdownBreachCount tk1)(posKey \<mapsto> breachCountAt tk1 posKey + 1)\<rparr>;
                remaining = drawdownBreachWindow tk2 - breachCountAt tk2 posKey
            in if remaining > 0 then (tk2, [])
               else
                 (case emergencyClosePosition trader smb sd of
                    (calls, ok) \<Rightarrow>
                      if ok then
                        (let tk3 = ClearPeakPnLCache tk2 smb sd
                         in (tk3\<lparr>drawdownBreachCount :=
                                   (drawdownBreachCount tk3)(posKey \<mapsto> 0)\<rparr>, calls))
                      else (tk2, calls)))
         else (tk1\<lparr>drawdownBreachCount := (drawdownBreachCount tk1)(posKey \<mapsto> 0)\<rparr>, []))"

fun monitorLoop ::
  "(TraderCall \<Rightarrow> bool) \<Rightarrow> Tracker \<Rightarrow> Position list \<Rightarrow> Tracker \<times> TraderCall list" where
  "monitorLoop trader tk [] = (tk, [])"
| "monitorLoop trader tk (pos # ps) =
     (case checkPosition trader tk (pos_symbol pos) (pos_side pos) (currentPnLPctOf pos) of
        (tk1, calls1) \<Rightarrow>
          (case monitorLoop trader tk1 ps of (tk2, calls2) \<Rightarrow> (tk2, calls1 @ calls2)))"

text \<open>
  \<^verbatim>\<open>checkPositionDrawdown\<close>; \<open>positions\<close> is what \<^verbatim>\<open>GetPositions\<close> returned,
  \<open>None\<close> for an error.
\<close>

definition checkPositionDrawdown ::
  "(TraderCall \<Rightarrow> bool) \<Rightarrow> Tracker \<Rightarrow> Position list option \<Rightarrow> Tracker \<times> TraderCall list" where
  "checkPositionDrawdown trader tk positions =
     (case positions of None \<Rightarrow> (tk, []) | Some ps \<Rightarrow> monitorLoop trader tk ps)"

text \<open>
  A tracker as \<^verbatim>\<open>NewAutoTrader\<close> makes it, with a peak of 20 percent recorded for the
  long position in BTCUSDT, and an adapter whose calls all succeed.
\<close>

definition exampleTracker :: Tracker where
  "exampleTracker =
     \<lparr>positionFirstSeenTime = Map.empty,
      peakPnLCache = [''BTCUSDT_long'' \<mapsto> 20],
      drawdownBreachCount = Map.empty,
      drawdownBreachWindow = 3\<rparr>"





section \<open>Position snapshots of the trading context\<close>

text \<open>
  The struct \<^verbatim>\<open>decision.PositionInfo\<close>; its symbol, side and leverage are named
  \<open>PosSymbol\<close>, \<open>PosSide\<close> and \<open>PosLeverage\<close> here, apart from the fields of a decision.
  The margin used is \<open>None\<close> where the Go value is not a finite number (a leverage of 0).
\<close>

record PositionInfo =
  PosSymbol :: string
  PosSide :: string
  EntryPrice :: real
  MarkPrice :: real
  Quantity :: real
  PosLeverage :: int
  UnrealizedPnL :: real
  UnrealizedPnLPct :: real
  PeakPnLPct :: real
  LiquidationPrice :: real
  MarginUsed :: "real option"
  UpdateTime :: int

definition calculatePnLPercentage :: "real \<Rightarrow> real \<Rightarrow> real" where
  "calculatePnLPercentage unrealizedPnl marginUsed =
     (if marginUsed > 0 then (unrealizedPnl / marginUsed) * 100 else 0.0)"

text \<open>
  The body of the loop over the positions in \<^verbatim>\<open>buildTradingContext\<close>, at the clock
  reading \<open>nowMs\<close> (milliseconds): \<open>None\<close> for a position that is skipped, else the first-seen
  times as updated and the snapshot. With a leverage of 0 the margin is infinite or NaN
  and the profit percentage computed from it is 0.
\<close>

definition buildPosition ::
  "int \<Rightarrow> Tracker \<Rightarrow> Position \<Rightarrow> (Tracker \<times> PositionInfo) option" where
  "buildPosition nowMs tk pos =
     (let quantity = (if pos_positionAmt pos < 0 then - pos_positionAmt pos
                      else pos_positionAmt pos)
      in if quantity = 0 then None
         else
           (let leverage = leverageOf pos;
                marginUsed = (if leverage = 0 then None
                              else Some ((quantity * pos_markPrice pos) / real_of_int leverage));
                pnlPct = (case marginUsed of
                            None \<Rightarrow> 0
                          | Some m \<Rightarrow> calculatePnLPercentage (pos_unRealizedProfit pos) m);
                posKey = pos_symbol pos @ ''_'' @ pos_side pos;
                tk1 = (case positionFirstSeenTime tk posKey of
                         None \<Rightarrow> tk\<lparr>positionFirstSeenTime :=
                                     (positionFirstSeenTime tk)(posKey \<mapsto> nowMs)\<rparr>
                       | Some seen \<Rightarrow> tk);
                updateTime = (case positionFirstSeenTime tk1 posKey of
                                None \<Rightarrow> 0 | Some seen \<Rightarrow> seen);
                peakPnlPct = peakAt tk1 (pos_symbol pos)
            in Some (tk1,
                 \<lparr>PosSymbol = pos_symbol pos, PosSide = pos_side pos,
                  EntryPrice = pos_entryPrice pos, MarkPrice = pos_markPrice pos,
                  Quantity = quantity, PosLeverage = leverage,
                  UnrealizedPnL = pos_unRealizedProfit pos, UnrealizedPnLPct = pnlPct,
                  PeakPnLPct = peakPnlPct, LiquidationPrice = pos_liquidationPrice pos,
                  MarginUsed = marginUsed, UpdateTime = updateTime\<rparr>)))"

text \<open>
  The loop, and the removal of the first-seen times of the keys no position has any more;
  \<open>clock k\<close> is the clock reading in iteration \<open>k\<close>.
\<close>

fun positionLoop ::
  "(nat \<Rightarrow> int) \<Rightarrow> nat \<Rightarrow> Tracker \<Rightarrow> Position list \<Rightarrow> Tracker \<times> PositionInfo list" where
  "positionLoop clock k tk [] = (tk, [])"
| "positionLoop clock k tk (pos # ps) =
     (case buildPosition (clock k) tk pos of
        None \<Rightarrow> positionLoop clock (Suc k) tk ps
      | Some (tk1, info) \<Rightarrow>
          (case positionLoop clock (Suc k) tk1 ps of
             (tk2, infos) \<Rightarrow> (tk2, info # infos)))"

definition buildPositionInfos ::
  "(nat \<Rightarrow> int) \<Rightarrow> Tracker \<Rightarrow> Position list \<Rightarrow> Tracker \<times> PositionInfo list" where
  "buildPositionInfos clock tk positions =
     (case positionLoop clock 0 tk positions of
        (tk1, infos) \<Rightarrow>
          (tk1\<lparr>positionFirstSeenTime :=
                 positionFirstSeenTime tk1
                   |` ((\<lambda>info. PosSymbol info @ ''_'' @ PosSide info) ` set infos)\<rparr>,
           infos))"

definition btcLong :: Position where
  "btcLong =
     \<lparr>pos_symbol = ''BTCUSDT'', pos_side = ''long'', pos_entryPrice = 100,
      pos_markPrice = 101, pos_positionAmt = 1, pos_unRealizedProfit = 1,
      pos_liquidationPrice = 50, pos_leverage = Some 10\<rparr>"

section \<open>Strings and regular expressions of the response parser\<close>

text \<open>
  A Go string is its bytes: a \<^typ>\<open>string\<close> whose characters are the bytes of the UTF-8
  text. The functions of the Go library that the parser calls are modelled after their
  documentation, on bytes.
\<close>

definition HasPrefix :: "string \<Rightarrow> string \<Rightarrow> bool" where
  "HasPrefix s p = (take (length p) s = p)"

definition slice :: "string \<Rightarrow> nat \<Rightarrow> nat \<Rightarrow> string" where
  "slice s lo hi = take (hi - lo) (drop lo s)"

text \<open>
  The UTF-8 encodings of the code points that \<^verbatim>\<open>unicode.IsSpace\<close> accepts: the six
  ASCII ones, U+0085, U+00A0, U+1680, U+2000 to U+200A, U+2028, U+2029, U+202F, U+205F and
  U+3000.
\<close>

definition spaceEncodings :: "string list" where
  "spaceEncodings =
     [[CHR 0x09], [CHR 0x0A], [CHR 0x0B], [CHR 0x0C], [CHR 0x0D], [CHR 0x20],
      [CHR 0xC2, CHR 0x85], [CHR 0xC2, CHR 0xA0], [CHR 0xE1, CHR 0x9A, CHR 0x80],
      [CHR 0xE2, CHR 0x80, CHR 0x80], [CHR 0xE2, CHR 0x80, CHR 0x81],
      [CHR 0xE2, CHR 0x80, CHR 0x82], [CHR 0xE2, CHR 0x80, CHR 0x83],
      [CHR 0xE2, CHR 0x80, CHR 0x84], [CHR 0xE2, CHR 0x80, CHR 0x85],
      [CHR 0xE2, CHR 0x80, CHR 0x86], [CHR 0xE2, CHR 0x80, CHR 0x87],
      [CHR 0xE2, CHR 0x80, CHR 0x88], [CHR 0xE2, CHR 0x80, CHR 0x89],
      [CHR 0xE2, CHR 0x80, CHR 0x8A], [CHR 0xE2, CHR 0x80, CHR 0xA8],
      [CHR 0xE2, CHR 0x80, CHR 0xA9], [CHR 0xE2, CHR 0x80, CHR 0xAF],
      [CHR 0xE2, CHR 0x81, CHR 0x9F], [CHR 0xE3, CHR 0x80, CHR 0x80]]"

text \<open>Removes, from the front, every leading occurrence of one of the byte strings.\<close>

function trimPrefixes :: "string list \<Rightarrow> string \<Rightarrow> string" where
  "trimPrefixes ws s =
     (case find (\<lambda>w. w \<noteq> [] \<and> HasPrefix s w) ws of
        None \<Rightarrow> s
      | Some w \<Rightarrow> trimPrefixes ws (drop (length w) s))"
  by pat_completeness auto
termination
proof (relation "measure (\<lambda>(ws, s). length s)")
  show "wf (measure (\<lambda>(ws, s). length s))" by simp
next
  fix ws :: "string list" and s w :: string
  assume "find (\<lambda>w. w \<noteq> [] \<and> HasPrefix s w) ws = Some w"
  then have "w \<noteq> []" "HasPrefix s w" by (auto simp: find_Some_iff)
  then have "s \<noteq> []" by (auto simp: HasPrefix_def)
  with \<open>w \<noteq> []\<close> show "((ws, drop (length w) s), (ws, s)) \<in> measure (\<lambda>(ws, s). length s)"
    by simp
qed

declare trimPrefixes.simps [simp del]

text \<open>
  \<^verbatim>\<open>strings.TrimSpace\<close>: the white space is cut from both ends. The last code point
  of a string is one of the list exactly when the string ends with its encoding.
\<close>

definition TrimSpace :: "string \<Rightarrow> string" where
  "TrimSpace s =
     rev (trimPrefixes (map rev spaceEncodings) (rev (trimPrefixes spaceEncodings s)))"

text \<open>
  \<^verbatim>\<open>strings.ReplaceAll\<close> for a text \<open>old\<close> that is not empty (the parser has no other):
  the occurrences are replaced from the left, none overlapping another.
\<close>

function ReplaceAll :: "string \<Rightarrow> string \<Rightarrow> string \<Rightarrow> string" where
  "ReplaceAll s old new =
     (case s of
        [] \<Rightarrow> []
      | c # cs \<Rightarrow>
          if old \<noteq> [] \<and> HasPrefix s old
          then new @ ReplaceAll (drop (length old) s) old new
          else c # ReplaceAll cs old new)"
  by pat_completeness auto
termination
  by (relation "measure (\<lambda>(s, old, new). length s)") auto

declare ReplaceAll.simps [simp del]

text \<open>\<^verbatim>\<open>strings.Index\<close>: the index of the first occurrence, \<open>None\<close> for \<open>-1\<close>.\<close>

fun indexFrom :: "nat \<Rightarrow> string \<Rightarrow> string \<Rightarrow> nat option" where
  "indexFrom i [] sub = (if sub = [] then Some i else None)"
| "indexFrom i (c # cs) sub =
     (if HasPrefix (c # cs) sub then Some i else indexFrom (i + 1) cs sub)"

definition Index :: "string \<Rightarrow> string \<Rightarrow> nat option" where
  "Index s sub = indexFrom 0 s sub"

text \<open>
  \<^verbatim>\<open>removeInvisibleRunes\<close>: the regular expression is a class of four code points,
  U+200B, U+200C, U+200D and U+FEFF; every occurrence of one of their encodings is
  removed.
\<close>

fun removeInvisibleRunes :: "string \<Rightarrow> string" where
  "removeInvisibleRunes (a # b # c # rest) =
     (if (a = CHR 0xE2 \<and> b = CHR 0x80 \<and> (c = CHR 0x8B \<or> c = CHR 0x8C \<or> c = CHR 0x8D))
         \<or> (a = CHR 0xEF \<and> b = CHR 0xBB \<and> c = CHR 0xBF)
      then removeInvisibleRunes rest
      else a # removeInvisibleRunes (b # c # rest))"
| "removeInvisibleRunes s = s"

text \<open>
  \<^verbatim>\<open>fixMissingQuotes\<close>: the curly quotes U+201C, U+201D, U+2018, U+2019, the
  full-width brackets, braces, colon and comma, the CJK brackets U+3010, U+3011, U+3014,
  U+3015, the ideographic comma and the ideographic space, each written as its encoding.
\<close>

definition fixMissingQuotes :: "string \<Rightarrow> string" where
  \<open>fixMissingQuotes jsonStr =
     (let s1 = ReplaceAll jsonStr [CHR 0xE2, CHR 0x80, CHR 0x9C] ''"'';
          s2 = ReplaceAll s1 [CHR 0xE2, CHR 0x80, CHR 0x9D] ''"'';
          s3 = ReplaceAll s2 [CHR 0xE2, CHR 0x80, CHR 0x98] [CHR 0x27];
          s4 = ReplaceAll s3 [CHR 0xE2, CHR 0x80, CHR 0x99] [CHR 0x27];
          s5 = ReplaceAll s4 [CHR 0xEF, CHR 0xBC, CHR 0xBB] ''['';
          s6 = ReplaceAll s5 [CHR 0xEF, CHR 0xBC, CHR 0xBD] '']'';
          s7 = ReplaceAll s6 [CHR 0xEF, CHR 0xBD, CHR 0x9B] ''{'';
          s8 = ReplaceAll s7 [CHR 0xEF, CHR 0xBD, CHR 0x9D] ''}'';
          s9 = ReplaceAll s8 [CHR 0xEF, CHR 0xBC, CHR 0x9A] '':'';
          s10 = ReplaceAll s9 [CHR 0xEF, CHR 0xBC, CHR 0x8C] '','';
          s11 = ReplaceAll s10 [CHR 0xE3, CHR 0x80, CHR 0x90] ''['';
          s12 = ReplaceAll s11 [CHR 0xE3, CHR 0x80, CHR 0x91] '']'';
          s13 = ReplaceAll s12 [CHR 0xE3, CHR 0x80, CHR 0x94] ''['';
          s14 = ReplaceAll s13 [CHR 0xE3, CHR 0x80, CHR 0x95] '']'';
          s15 = ReplaceAll s14 [CHR 0xE3, CHR 0x80, CHR 0x81] '','';
          s16 = ReplaceAll s15 [CHR 0xE3, CHR 0x80, CHR 0x80] '' ''
      in s16)\<close>

text \<open>The class \<^verbatim>\<open>\s\<close> of the regular expressions: tab, line feed, form feed, return, space.\<close>

definition reSpace :: "char \<Rightarrow> bool" where
  "reSpace c \<longleftrightarrow>
     c = CHR 0x09 \<or> c = CHR 0x0A \<or> c = CHR 0x0C \<or> c = CHR 0x0D \<or> c = CHR 0x20"

text \<open>
  The opening of \<^verbatim>\<open>reJSONFenceGeneric\<close>, three backquotes and \<^verbatim>\<open>json\<close> without
  regard to case: the text that follows it, if the string starts with it. Under case
  folding the letter s also stands for U+017F, the long s.
\<close>

definition fenceOpen :: "string \<Rightarrow> string option" where
  "fenceOpen s =
     (case s of
        a # b # c # j # r1 \<Rightarrow>
          if a = CHR 0x60 \<and> b = CHR 0x60 \<and> c = CHR 0x60 \<and> (j = CHR ''j'' \<or> j = CHR ''J'')
          then
            (case (if HasPrefix r1 ''s'' \<or> HasPrefix r1 ''S'' then Some (drop 1 r1)
                   else if HasPrefix r1 [CHR 0xC5, CHR 0xBF] then Some (drop 2 r1)
                   else None) of
               Some (o1 # n1 # r2) \<Rightarrow>
                 if (o1 = CHR ''o'' \<or> o1 = CHR ''O'') \<and> (n1 = CHR ''n'' \<or> n1 = CHR ''N'')
                 then Some r2 else None
             | _ \<Rightarrow> None)
          else None
      | _ \<Rightarrow> None)"

text \<open>
  A reluctant group \<^verbatim>\<open>(.*?)\<close> before a closing text, with \<^verbatim>\<open>\s*\<close> between the
  two when \<open>ws\<close> is set: the shortest prefix after which the closing text follows (after
  white space, all of it, when \<open>ws\<close> is set); \<open>None\<close> when there is no such prefix.
\<close>

fun lazyUntil :: "string \<Rightarrow> bool \<Rightarrow> string \<Rightarrow> string option" where
  "lazyUntil cls ws [] = (if HasPrefix [] cls then Some [] else None)"
| "lazyUntil cls ws (c # cs) =
     (if HasPrefix (if ws then dropWhile reSpace (c # cs) else c # cs) cls then Some []
      else map_option ((#) c) (lazyUntil cls ws cs))"

text \<open>
  The first submatch of \<^verbatim>\<open>reJSONFenceGeneric\<close>, the expression
  \<^verbatim>\<open>(?is)```json\s*(.*?)\s*```\<close>, at the leftmost match; \<open>None\<close> when nothing
  matches.
\<close>

fun findFenceGeneric :: "string \<Rightarrow> string option" where
  "findFenceGeneric [] = None"
| "findFenceGeneric (c # cs) =
     (case fenceOpen (c # cs) of
        None \<Rightarrow> findFenceGeneric cs
      | Some rest \<Rightarrow>
          (case lazyUntil ''```'' True (dropWhile reSpace rest) of
             Some inner \<Rightarrow> Some inner
           | None \<Rightarrow> findFenceGeneric cs))"

text \<open>The first submatch of an expression \<^verbatim>\<open>(?s)OPEN(.*?)CLOSE\<close> of two plain texts.\<close>

fun findTag :: "string \<Rightarrow> string \<Rightarrow> string \<Rightarrow> string option" where
  "findTag opn cls [] = None"
| "findTag opn cls (c # cs) =
     (if HasPrefix (c # cs) opn then
        (case lazyUntil cls False (drop (length opn) (c # cs)) of
           Some inner \<Rightarrow> Some inner
         | None \<Rightarrow> findTag opn cls cs)
      else findTag opn cls cs)"

definition findDecisionTag :: "string \<Rightarrow> string option" where
  "findDecisionTag s = findTag ''<decision>'' ''</decision>'' s"

text \<open>
  \<^verbatim>\<open>stripJSONComments\<close>. First \<^verbatim>\<open>reBlockComment\<close>, \<^verbatim>\<open>(?s)/\*.*?\*/\<close>: every
  block comment that is closed is removed, up to its first closing.
\<close>

fun afterBlockClose :: "string \<Rightarrow> string option" where
  "afterBlockClose [] = None"
| "afterBlockClose (c # cs) =
     (if HasPrefix (c # cs) ''*/'' then Some (drop 2 (c # cs)) else afterBlockClose cs)"

lemma afterBlockClose_length: "afterBlockClose s = Some r \<Longrightarrow> length r < length s"
  by (induction s) (auto split: if_splits)

function stripBlockComments :: "string \<Rightarrow> string" where
  "stripBlockComments s =
     (case s of
        [] \<Rightarrow> []
      | c # cs \<Rightarrow>
          (case (if HasPrefix s ''/*'' then afterBlockClose (drop 2 s) else None) of
             Some rest \<Rightarrow> stripBlockComments rest
           | None \<Rightarrow> c # stripBlockComments cs))"
  by pat_completeness auto
termination
proof (relation "measure length")
  show "wf (measure length)" by simp
next
  fix s :: string and c cs rest
  assume "s = c # cs"
    and "(if HasPrefix s ''/*'' then afterBlockClose (drop 2 s) else None) = Some rest"
  then have "afterBlockClose (drop 2 s) = Some rest" by (auto split: if_splits)
  then have "length rest < length (drop 2 s)" by (rule afterBlockClose_length)
  then show "(rest, s) \<in> measure length" by simp
next
  fix s :: string and c cs
  assume "s = c # cs"
  then show "(cs, s) \<in> measure length" by simp
qed

declare stripBlockComments.simps [simp del]

text \<open>
  Then \<^verbatim>\<open>reLineComment\<close>, \<^verbatim>\<open>(?m)^\s*(//|#).*?$\<close>: at the start of a line, white
  space (which may run over line ends), then \<^verbatim>\<open>//\<close> or \<^verbatim>\<open>#\<close>, then the rest of
  that line without its line feed. \<open>lineStart\<close> tells whether the text is at the start of
  a line.
\<close>

definition lineCommentStart :: "string \<Rightarrow> bool" where
  "lineCommentStart s \<longleftrightarrow> HasPrefix s ''//'' \<or> HasPrefix s ''#''"

function stripLineComments :: "bool \<Rightarrow> string \<Rightarrow> string" where
  "stripLineComments lineStart s =
     (case s of
        [] \<Rightarrow> []
      | c # cs \<Rightarrow>
          if lineStart \<and> lineCommentStart (dropWhile reSpace s)
          then stripLineComments False
                 (dropWhile (\<lambda>x. x \<noteq> CHR 0x0A) (dropWhile reSpace s))
          else c # stripLineComments (c = CHR 0x0A) cs)"
  by pat_completeness auto
termination
proof (relation "measure (\<lambda>(b, s). length s)")
  show "wf (measure (\<lambda>(b, s). length s))" by simp
next
  fix lineStart :: bool and s :: string and c cs
  assume s: "s = c # cs" and m: "lineStart \<and> lineCommentStart (dropWhile reSpace s)"
  let ?r = "dropWhile reSpace s"
  from m have cs: "lineCommentStart ?r" by simp
  have "\<not> lineCommentStart []" by (simp add: lineCommentStart_def HasPrefix_def)
  with cs obtain x xs where r: "?r = x # xs" by (cases ?r) auto
  from cs have "x = CHR ''/'' \<or> x = CHR ''#''"
    unfolding r by (auto simp: lineCommentStart_def HasPrefix_def)
  then have "x \<noteq> CHR 0x0A" by auto
  then have "dropWhile (\<lambda>x. x \<noteq> CHR 0x0A) ?r = dropWhile (\<lambda>x. x \<noteq> CHR 0x0A) xs"
    using r by simp
  moreover have "length (dropWhile (\<lambda>x. x \<noteq> CHR 0x0A) xs) \<le> length xs"
    by (rule length_dropWhile_le)
  moreover have "length ?r \<le> length s" by (rule length_dropWhile_le)
  ultimately show "((False, dropWhile (\<lambda>x. x \<noteq> CHR 0x0A) ?r), (lineStart, s))
                     \<in> measure (\<lambda>(b, s). length s)"
    using r by simp
next
  fix lineStart :: bool and s :: string and c cs
  assume "s = c # cs"
  then show "((c = CHR 0x0A, cs), (lineStart, s)) \<in> measure (\<lambda>(b, s). length s)" by simp
qed

declare stripLineComments.simps [simp del]

definition stripJSONComments :: "string \<Rightarrow> string" where
  "stripJSONComments s = stripLineComments True (stripBlockComments s)"

text \<open>
  The loop of \<^verbatim>\<open>findMatchingBrace\<close>, from index \<open>i\<close> with the depth and the
  string flag; the result is the index of the matching brace, \<open>None\<close> for \<open>-1\<close>.
\<close>

function braceLoop :: "string \<Rightarrow> nat \<Rightarrow> int \<Rightarrow> bool \<Rightarrow> nat option" where
  "braceLoop s i depth inString =
     (if i < length s then
        (let ch = s ! i in
         if ch = CHR 0x22 \<and> (i = 0 \<or> s ! (i - 1) \<noteq> CHR 0x5C)
           then braceLoop s (i + 1) depth (\<not> inString)
         else if inString then braceLoop s (i + 1) depth inString
         else if ch = CHR ''{'' then braceLoop s (i + 1) (depth + 1) inString
         else if ch = CHR ''}'' then
           (if depth - 1 = 0 then Some i else braceLoop s (i + 1) (depth - 1) inString)
         else braceLoop s (i + 1) depth inString)
      else None)"
  by pat_completeness auto
termination
  by (relation "measure (\<lambda>(s, i, depth, inString). length s - i)") auto

declare braceLoop.simps [simp del]

definition findMatchingBrace :: "string \<Rightarrow> nat \<Rightarrow> nat option" where
  "findMatchingBrace s start =
     (if start \<ge> length s \<or> s ! start \<noteq> CHR ''{'' then None
      else braceLoop s start 0 False)"

function bracketLoop :: "string \<Rightarrow> nat \<Rightarrow> int \<Rightarrow> nat option" where
  "bracketLoop s i depth =
     (if i < length s then
        (if s ! i = CHR ''['' then bracketLoop s (i + 1) (depth + 1)
         else if s ! i = CHR '']'' then
           (if depth - 1 = 0 then Some i else bracketLoop s (i + 1) (depth - 1))
         else bracketLoop s (i + 1) depth)
      else None)"
  by pat_completeness auto
termination
  by (relation "measure (\<lambda>(s, i, depth). length s - i)") auto

declare bracketLoop.simps [simp del]

definition findMatchingBracket :: "string \<Rightarrow> nat \<Rightarrow> nat option" where
  "findMatchingBracket s start =
     (if start \<ge> length s \<or> s ! start \<noteq> CHR ''['' then None
      else bracketLoop s start 0)"

text \<open>
  The loop of \<^verbatim>\<open>findDecisionsObjectSubstring\<close> that walks back from an index, which is
  within the string, to the nearest opening brace.
\<close>

fun lastBraceUpTo :: "string \<Rightarrow> nat \<Rightarrow> nat option" where
  "lastBraceUpTo s 0 = (if s ! 0 = CHR ''{'' then Some 0 else None)"
| "lastBraceUpTo s (Suc i) =
     (if s ! Suc i = CHR ''{'' then Some (Suc i) else lastBraceUpTo s i)"

definition findDecisionsObjectSubstring :: "string \<Rightarrow> string" where
  \<open>findDecisionsObjectSubstring s =
     (case Index s ''"decisions"'' of
        None \<Rightarrow> []
      | Some idx \<Rightarrow>
          (case lastBraceUpTo s idx of
             None \<Rightarrow> []
           | Some start \<Rightarrow>
               (case findMatchingBrace s start of
                  None \<Rightarrow> []
                | Some endIdx \<Rightarrow>
                    if endIdx > start then slice s start (endIdx + 1) else [])))\<close>

definition sanitizeModelResponse :: "string \<Rightarrow> string" where
  "sanitizeModelResponse response =
     (let s = fixMissingQuotes (removeInvisibleRunes (TrimSpace response)) in
      case findFenceGeneric s of
        Some m1 \<Rightarrow> stripJSONComments (TrimSpace m1)
      | None \<Rightarrow>
          (case findDecisionTag s of
             Some m1 \<Rightarrow> stripJSONComments (TrimSpace m1)
           | None \<Rightarrow>
               (let obj = findDecisionsObjectSubstring s in
                if obj \<noteq> [] then stripJSONComments (TrimSpace obj)
                else
                  (let idxObj = Index s ''{'';
                       idxArr = Index s ''['';
                       isObj = (case idxObj of
                                  None \<Rightarrow> False
                                | Some io \<Rightarrow>
                                    (case idxArr of None \<Rightarrow> True | Some ia \<Rightarrow> io < ia));
                       start = (if isObj then idxObj else idxArr);
                       s' = (case start of
                               None \<Rightarrow> s
                             | Some st \<Rightarrow>
                                 (case (if isObj then findMatchingBrace s st
                                        else findMatchingBracket s st) of
                                    Some endIdx \<Rightarrow>
                                      if endIdx > st then slice s st (endIdx + 1)
                                      else drop st s
                                  | None \<Rightarrow> drop st s))
                   in TrimSpace (stripJSONComments s')))))"

section \<open>Decoding JSON into decisions\<close>

text \<open>
  \<^verbatim>\<open>json.Unmarshal\<close> of the Go library, modelled after its documentation for the two
  targets the parser decodes into: the wrapper struct with its one field
  \<^verbatim>\<open>decisions\<close>, and a slice of decisions. The text is first parsed as a whole (any
  syntax error is an error of the call), then decoded. The model is partial: on a text
  outside the part it covers the outcome is \<open>Unmodelled\<close>, and it says nothing. Outside
  it are a string with a \<^verbatim>\<open>\u\<close> escape or a byte beyond ASCII (Go checks and repairs
  the UTF-8), and an object that has the key \<^verbatim>\<open>decisions\<close> twice (Go decodes the
  second array into the slice the first one left).
\<close>

datatype JSON =
    JNull
  | JBool bool
  | JNumber string
  | JString string
  | JArray "JSON list"
  | JObject "(string \<times> JSON) list"

datatype 'a Unmarshal = Decoded 'a | UnmarshalError | Unmodelled

definition thenU :: "'a Unmarshal \<Rightarrow> ('a \<Rightarrow> 'b Unmarshal) \<Rightarrow> 'b Unmarshal" where
  "thenU r f =
     (case r of
        Decoded v \<Rightarrow> f v
      | UnmarshalError \<Rightarrow> UnmarshalError
      | Unmodelled \<Rightarrow> Unmodelled)"

lemma thenU_simps [simp]:
  "thenU (Decoded v) f = f v"
  "thenU UnmarshalError f = UnmarshalError"
  "thenU Unmodelled f = Unmodelled"
  by (simp_all add: thenU_def)

lemma thenU_cong [fundef_cong]:
  "r = r' \<Longrightarrow> (\<And>v. r' = Decoded v \<Longrightarrow> f v = f' v) \<Longrightarrow> thenU r f = thenU r' f'"
  by (auto simp: thenU_def split: Unmarshal.splits)

definition jsonSpace :: "char \<Rightarrow> bool" where
  "jsonSpace c \<longleftrightarrow> c = CHR 0x20 \<or> c = CHR 0x09 \<or> c = CHR 0x0D \<or> c = CHR 0x0A"

definition skipSpace :: "string \<Rightarrow> string" where
  "skipSpace s = dropWhile jsonSpace s"

definition isDigit :: "char \<Rightarrow> bool" where
  "isDigit c \<longleftrightarrow> (48::nat) \<le> of_char c \<and> of_char c \<le> (57::nat)"

definition unescape :: "char \<Rightarrow> char option" where
  "unescape e =
     (if e = CHR 0x22 \<or> e = CHR 0x5C \<or> e = CHR ''/'' then Some e
      else if e = CHR ''b'' then Some (CHR 0x08)
      else if e = CHR ''f'' then Some (CHR 0x0C)
      else if e = CHR ''n'' then Some (CHR 0x0A)
      else if e = CHR ''r'' then Some (CHR 0x0D)
      else if e = CHR ''t'' then Some (CHR 0x09)
      else None)"

text \<open>A string literal after its opening quote: the text it stands for, and what follows it.\<close>

fun parseString :: "string \<Rightarrow> (string \<times> string) Unmarshal" where
  "parseString [] = UnmarshalError"
| "parseString [c] = (if c = CHR 0x22 then Decoded ([], []) else UnmarshalError)"
| "parseString (c # e # rest) =
     (if c = CHR 0x22 then Decoded ([], e # rest)
      else if c = CHR 0x5C then
        (if e = CHR ''u'' then Unmodelled
         else (case unescape e of
                 None \<Rightarrow> UnmarshalError
               | Some ch \<Rightarrow>
                   thenU (parseString rest) (\<lambda>(str, r). Decoded (ch # str, r))))
      else if (of_char c :: nat) < 32 then UnmarshalError
      else if (of_char c :: nat) \<ge> 128 then Unmodelled
      else thenU (parseString (e # rest)) (\<lambda>(str, r). Decoded (c # str, r)))"

text \<open>A run of at least one digit, and a number literal: the literal and what follows it.\<close>

definition digits1 :: "string \<Rightarrow> (string \<times> string) option" where
  "digits1 s =
     (if takeWhile isDigit s = [] then None
      else Some (takeWhile isDigit s, dropWhile isDigit s))"

definition parseNumber :: "string \<Rightarrow> (string \<times> string) Unmarshal" where
  "parseNumber s =
     (let (sign, s1) = (if HasPrefix s ''-'' then (''-'', drop 1 s) else ([], s)) in
      case (if HasPrefix s1 ''0'' then Some (''0'', drop 1 s1) else digits1 s1) of
        None \<Rightarrow> UnmarshalError
      | Some (ip, s2) \<Rightarrow>
          (case (if HasPrefix s2 ''.''
                 then map_option (\<lambda>(ds, r). (''.'' @ ds, r)) (digits1 (drop 1 s2))
                 else Some ([], s2)) of
             None \<Rightarrow> UnmarshalError
           | Some (fp, s3) \<Rightarrow>
               (if HasPrefix s3 ''e'' \<or> HasPrefix s3 ''E'' then
                  (let s4 = drop 1 s3;
                       (esign, s5) = (if HasPrefix s4 ''+'' \<or> HasPrefix s4 ''-''
                                      then (take 1 s4, drop 1 s4) else ([], s4))
                   in case digits1 s5 of
                        None \<Rightarrow> UnmarshalError
                      | Some (ds, r) \<Rightarrow>
                          Decoded (sign @ ip @ fp @ take 1 s3 @ esign @ ds, r))
                else Decoded (sign @ ip @ fp, s3))))"

definition maxNestingDepth :: nat where
  "maxNestingDepth = 10000"

text \<open>
  The grammar of JSON values, by recursive descent. The first argument is fuel, one unit
  for each call; \<open>parseJSON\<close> gives two units for every byte, and a call that finds none
  left is \<open>Unmodelled\<close>. The second is the depth of nesting, which Go limits.
\<close>

fun parseValue :: "nat \<Rightarrow> nat \<Rightarrow> string \<Rightarrow> (JSON \<times> string) Unmarshal"
  and parseElements :: "nat \<Rightarrow> nat \<Rightarrow> string \<Rightarrow> (JSON list \<times> string) Unmarshal"
  and parseMembers ::
    "nat \<Rightarrow> nat \<Rightarrow> string \<Rightarrow> ((string \<times> JSON) list \<times> string) Unmarshal"
where
  "parseValue 0 depth s = Unmodelled"
| "parseValue (Suc n) depth s =
     (let t = skipSpace s in
      if HasPrefix t ''{'' then
        (if depth \<ge> maxNestingDepth then UnmarshalError
         else if HasPrefix (skipSpace (drop 1 t)) ''}''
           then Decoded (JObject [], drop 1 (skipSpace (drop 1 t)))
         else thenU (parseMembers n (depth + 1) (drop 1 t))
                (\<lambda>(ms, r). Decoded (JObject ms, r)))
      else if HasPrefix t ''['' then
        (if depth \<ge> maxNestingDepth then UnmarshalError
         else if HasPrefix (skipSpace (drop 1 t)) '']''
           then Decoded (JArray [], drop 1 (skipSpace (drop 1 t)))
         else thenU (parseElements n (depth + 1) (drop 1 t))
                (\<lambda>(vs, r). Decoded (JArray vs, r)))
      else if HasPrefix t [CHR 0x22] then
        thenU (parseString (drop 1 t)) (\<lambda>(str, r). Decoded (JString str, r))
      else if HasPrefix t ''true'' then Decoded (JBool True, drop 4 t)
      else if HasPrefix t ''false'' then Decoded (JBool False, drop 5 t)
      else if HasPrefix t ''null'' then Decoded (JNull, drop 4 t)
      else if HasPrefix t ''-'' \<or> (t \<noteq> [] \<and> isDigit (hd t)) then
        thenU (parseNumber t) (\<lambda>(lit, r). Decoded (JNumber lit, r))
      else UnmarshalError)"
| "parseElements 0 depth s = Unmodelled"
| "parseElements (Suc n) depth s =
     thenU (parseValue n depth s) (\<lambda>(v, r).
       let t = skipSpace r in
       if HasPrefix t '','' then
         thenU (parseElements n depth (drop 1 t)) (\<lambda>(vs, r'). Decoded (v # vs, r'))
       else if HasPrefix t '']'' then Decoded ([v], drop 1 t)
       else UnmarshalError)"
| "parseMembers 0 depth s = Unmodelled"
| "parseMembers (Suc n) depth s =
     (let t = skipSpace s in
      if HasPrefix t [CHR 0x22] then
        thenU (parseString (drop 1 t)) (\<lambda>(key, r).
          let t1 = skipSpace r in
          if HasPrefix t1 '':'' then
            thenU (parseValue n depth (drop 1 t1)) (\<lambda>(v, r1).
              let t2 = skipSpace r1 in
              if HasPrefix t2 '','' then
                thenU (parseMembers n depth (drop 1 t2))
                  (\<lambda>(ms, r2). Decoded ((key, v) # ms, r2))
              else if HasPrefix t2 ''}'' then Decoded ([(key, v)], drop 1 t2)
              else UnmarshalError)
          else UnmarshalError)
      else UnmarshalError)"

definition parseJSON :: "string \<Rightarrow> JSON Unmarshal" where
  "parseJSON s =
     thenU (parseValue (2 * length s + 2) 0 s) (\<lambda>(v, r).
       if skipSpace r = [] then Decoded v else UnmarshalError)"

text \<open>The zero value of the struct, into which every element of a fresh slice is decoded.\<close>

definition zeroDecision :: Decision where
  "zeroDecision =
     \<lparr>Symbol = [], Action = [], Leverage = 0, PositionSizeUSD = 0, StopLoss = 0,
      TakeProfit = 0, NewStopLoss = 0, NewTakeProfit = 0, ClosePercentage = 0,
      Confidence = 0, RiskUSD = 0, Reasoning = []\<rparr>"

text \<open>A key names a field when the two are equal without regard to case.\<close>

definition toLower :: "char \<Rightarrow> char" where
  "toLower c =
     (if (65::nat) \<le> of_char c \<and> of_char c \<le> (90::nat)
      then char_of (of_char c + (32::nat)) else c)"

definition foldName :: "string \<Rightarrow> string" where
  "foldName key = map toLower key"

definition digitsValue :: "string \<Rightarrow> nat" where
  "digitsValue ds = foldl (\<lambda>acc c. 10 * acc + (of_char c - 48)) 0 ds"

text \<open>
  A number literal as a 64-bit integer (\<^verbatim>\<open>strconv.ParseInt\<close>): digits only after the
  sign, and within the range; and as a \<^verbatim>\<open>float64\<close> (\<^verbatim>\<open>strconv.ParseFloat\<close>): the
  exact value of the literal, unless it is so large that it rounds to infinity.
\<close>

definition literalInt :: "string \<Rightarrow> int option" where
  "literalInt lit =
     (let neg = HasPrefix lit ''-'';
          body = (if neg then drop 1 lit else lit);
          n = (if neg then - int (digitsValue body) else int (digitsValue body))
      in if body \<noteq> [] \<and> list_all isDigit body \<and> - (2 ^ 63) \<le> n \<and> n \<le> 2 ^ 63 - 1
         then Some n else None)"

definition literalReal :: "string \<Rightarrow> real option" where
  "literalReal lit =
     (let neg = HasPrefix lit ''-'';
          body = (if neg then drop 1 lit else lit);
          ip = takeWhile isDigit body;
          r1 = dropWhile isDigit body;
          fp = (if HasPrefix r1 ''.'' then takeWhile isDigit (drop 1 r1) else []);
          r2 = (if HasPrefix r1 ''.'' then dropWhile isDigit (drop 1 r1) else r1);
          r3 = drop 1 r2;
          eneg = HasPrefix r3 ''-'';
          ed = (if HasPrefix r3 ''-'' \<or> HasPrefix r3 ''+'' then drop 1 r3 else r3);
          mant = real (digitsValue (ip @ fp)) / 10 ^ length fp;
          mag = (if r2 = [] then mant
                 else if eneg then mant / 10 ^ digitsValue ed
                 else mant * 10 ^ digitsValue ed);
          x = (if neg then - mag else mag)
      in if \<bar>x\<bar> \<ge> 2 ^ 1024 - 2 ^ 970 then None else Some x)"

text \<open>
  A JSON value into a field that holds \<open>cur\<close>: \<^verbatim>\<open>null\<close> leaves the field as it is,
  and a value of another kind than the field is an error of the call.
\<close>

definition decodeString :: "string \<Rightarrow> JSON \<Rightarrow> string Unmarshal" where
  "decodeString cur v =
     (case v of JString str \<Rightarrow> Decoded str | JNull \<Rightarrow> Decoded cur | _ \<Rightarrow> UnmarshalError)"

definition decodeInt :: "int \<Rightarrow> JSON \<Rightarrow> int Unmarshal" where
  "decodeInt cur v =
     (case v of
        JNumber lit \<Rightarrow>
          (case literalInt lit of Some n \<Rightarrow> Decoded n | None \<Rightarrow> UnmarshalError)
      | JNull \<Rightarrow> Decoded cur
      | _ \<Rightarrow> UnmarshalError)"

definition decodeFloat :: "real \<Rightarrow> JSON \<Rightarrow> real Unmarshal" where
  "decodeFloat cur v =
     (case v of
        JNumber lit \<Rightarrow>
          (case literalReal lit of Some x \<Rightarrow> Decoded x | None \<Rightarrow> UnmarshalError)
      | JNull \<Rightarrow> Decoded cur
      | _ \<Rightarrow> UnmarshalError)"

text \<open>
  One member of an object into a decision, by the JSON names of the struct tags; a key
  that names no field is skipped, and of a key that comes twice the later value stays.
\<close>

definition setField :: "Decision \<Rightarrow> string \<times> JSON \<Rightarrow> Decision Unmarshal" where
  "setField d member =
     (let name = foldName (fst member); v = snd member in
      if name = ''symbol''
        then thenU (decodeString (Symbol d) v) (\<lambda>x. Decoded (d\<lparr>Symbol := x\<rparr>))
      else if name = ''action''
        then thenU (decodeString (Action d) v) (\<lambda>x. Decoded (d\<lparr>Action := x\<rparr>))
      else if name = ''leverage''
        then thenU (decodeInt (Leverage d) v) (\<lambda>x. Decoded (d\<lparr>Leverage := x\<rparr>))
      else if name = ''position_size_usd''
        then thenU (decodeFloat (PositionSizeUSD d) v)
               (\<lambda>x. Decoded (d\<lparr>PositionSizeUSD := x\<rparr>))
      else if name = ''stop_loss''
        then thenU (decodeFloat (StopLoss d) v) (\<lambda>x. Decoded (d\<lparr>StopLoss := x\<rparr>))
      else if name = ''take_profit''
        then thenU (decodeFloat (TakeProfit d) v) (\<lambda>x. Decoded (d\<lparr>TakeProfit := x\<rparr>))
      else if name = ''new_stop_loss''
        then thenU (decodeFloat (NewStopLoss d) v) (\<lambda>x. Decoded (d\<lparr>NewStopLoss := x\<rparr>))
      else if name = ''new_take_profit''
        then thenU (decodeFloat (NewTakeProfit d) v)
               (\<lambda>x. Decoded (d\<lparr>NewTakeProfit := x\<rparr>))
      else if name = ''close_percentage''
        then thenU (decodeFloat (ClosePercentage d) v)
               (\<lambda>x. Decoded (d\<lparr>ClosePercentage := x\<rparr>))
      else if name = ''confidence''
        then thenU (decodeInt (Confidence d) v) (\<lambda>x. Decoded (d\<lparr>Confidence := x\<rparr>))
      else if name = ''risk_usd''
        then thenU (decodeFloat (RiskUSD d) v) (\<lambda>x. Decoded (d\<lparr>RiskUSD := x\<rparr>))
      else if name = ''reasoning''
        then thenU (decodeString (Reasoning d) v) (\<lambda>x. Decoded (d\<lparr>Reasoning := x\<rparr>))
      else Decoded d)"

fun setFields :: "Decision \<Rightarrow> (string \<times> JSON) list \<Rightarrow> Decision Unmarshal" where
  "setFields d [] = Decoded d"
| "setFields d (m # ms) = thenU (setField d m) (\<lambda>d'. setFields d' ms)"

definition decodeDecision :: "JSON \<Rightarrow> Decision Unmarshal" where
  "decodeDecision v =
     (case v of
        JObject members \<Rightarrow> setFields zeroDecision members
      | JNull \<Rightarrow> Decoded zeroDecision
      | _ \<Rightarrow> UnmarshalError)"

fun decodeAll :: "JSON list \<Rightarrow> Decision list Unmarshal" where
  "decodeAll [] = Decoded []"
| "decodeAll (v # vs) =
     thenU (decodeDecision v) (\<lambda>d. thenU (decodeAll vs) (\<lambda>ds. Decoded (d # ds)))"

text \<open>Into a nil slice of decisions, and into the wrapper struct: the slice it ends with.\<close>

definition decodeDecisionSlice :: "JSON \<Rightarrow> Decision list Unmarshal" where
  "decodeDecisionSlice v =
     (case v of
        JArray elems \<Rightarrow> decodeAll elems
      | JNull \<Rightarrow> Decoded []
      | _ \<Rightarrow> UnmarshalError)"

definition decodeWrapper :: "JSON \<Rightarrow> Decision list Unmarshal" where
  "decodeWrapper v =
     (case v of
        JObject members \<Rightarrow>
          (case filter (\<lambda>m. foldName (fst m) = ''decisions'') members of
             [] \<Rightarrow> Decoded []
           | [m] \<Rightarrow> decodeDecisionSlice (snd m)
           | _ \<Rightarrow> Unmodelled)
      | JNull \<Rightarrow> Decoded []
      | _ \<Rightarrow> UnmarshalError)"

definition unmarshalWrapper :: "string \<Rightarrow> Decision list Unmarshal" where
  "unmarshalWrapper s = thenU (parseJSON s) decodeWrapper"

definition unmarshalSlice :: "string \<Rightarrow> Decision list Unmarshal" where
  "unmarshalSlice s = thenU (parseJSON s) decodeDecisionSlice"

section \<open>Extraction of the decisions\<close>

text \<open>
  What \<^verbatim>\<open>extractDecisionsStrict\<close> returns: the decisions, or its error with the
  preview of the text; \<open>ExtractionUnmodelled\<close> where the model of the decoder says nothing.
\<close>

datatype Extraction =
    Extracted "Decision list"
  | ExtractionFailed ParseError
  | ExtractionUnmodelled

text \<open>
  One attempt of the function: it returns the decisions when the call had no error and
  the slice is not empty, and goes on to the next attempt otherwise.
\<close>

definition orElse :: "Decision list Unmarshal \<Rightarrow> Extraction \<Rightarrow> Extraction" where
  "orElse attempt next =
     (case attempt of
        Decoded ds \<Rightarrow> if length ds > 0 then Extracted ds else next
      | UnmarshalError \<Rightarrow> next
      | Unmodelled \<Rightarrow> ExtractionUnmodelled)"

text \<open>
  The four attempts, in the order of the source. The last two decode into the same slice
  variable; the last finds it as the third left it only after an error of a kind that the
  last call meets again, so each is modelled as decoding into a nil slice.
\<close>

definition extractDecisionsStrict :: "string \<Rightarrow> Extraction" where
  "extractDecisionsStrict response =
     (let s = sanitizeModelResponse response;
          obj = findDecisionsObjectSubstring response;
          preview = (if length s > 160 then take 160 s @ ''...'' else s)
      in orElse (unmarshalWrapper s)
           (orElse (if obj \<noteq> [] then unmarshalWrapper obj else UnmarshalError)
              (orElse (unmarshalSlice s)
                 (orElse
                    (case Index s ''['' of
                       None \<Rightarrow> UnmarshalError
                     | Some idx \<Rightarrow>
                         (case findMatchingBracket s idx of
                            None \<Rightarrow> UnmarshalError
                          | Some endIdx \<Rightarrow>
                              if endIdx > idx then unmarshalSlice (slice s idx (endIdx + 1))
                              else UnmarshalError))
                    (ExtractionFailed (Unparsable preview))))))"

text \<open>
  The object of the specification's example, and two responses that wrap it in a fenced
  code block: one fence labelled \<^verbatim>\<open>json\<close>, one without a label.
\<close>

definition holdObject :: string where
  \<open>holdObject =
     ''{"decisions":[{"symbol":"BTCUSDT","action":"hold","reasoning":"x"}]}''\<close>

definition fencedResponse :: string where
  \<open>fencedResponse = ''```json\<newline>'' @ holdObject @ ''\<newline>```''\<close>

definition plainFencedResponse :: string where
  \<open>plainFencedResponse = ''```\<newline>'' @ holdObject @ ''\<newline>```''\<close>

definition holdDecision :: Decision where
  "holdDecision = zeroDecision\<lparr>Symbol := ''BTCUSDT'', Action := ''hold'', Reasoning := ''x''\<rparr>"

section \<open>Properties of the sizing engine\<close>





section \<open>Properties of the risk-pause state machine\<close>




text \<open>
  Claim C9. When the daily reset fires it sets \<open>dailyPnL\<close> to 0 and the last-reset
  timestamp to the current time, and changes no other field: the day-start equity, the
  equity peak and the pause deadline are as before.
\<close>

theorem dailyReset_frame:
  assumes "dailyResetFires now tr"
  shows "dailyPnL (dailyReset now tr) = 0
       \<and> lastResetTime (dailyReset now tr) = now
       \<and> dailyReset now tr = tr\<lparr>dailyPnL := 0, lastResetTime := now\<rparr>
       \<and> dayStartEquity (dailyReset now tr) = dayStartEquity tr
       \<and> equityPeak (dailyReset now tr) = equityPeak tr
       \<and> stopUntil (dailyReset now tr) = stopUntil tr
       \<and> config (dailyReset now tr) = config tr
       \<and> callCount (dailyReset now tr) = callCount tr"
  using assms by (simp add: dailyReset_def)

theorem dailyReset_frame_witness:
  "dailyResetFires (25 * hour) exampleTrader
   \<and> dailyPnL (dailyReset (25 * hour) exampleTrader) = 0
   \<and> lastResetTime (dailyReset (25 * hour) exampleTrader) = 25 * hour
   \<and> dayStartEquity (dailyReset (25 * hour) exampleTrader) = 1000
   \<and> equityPeak (dailyReset (25 * hour) exampleTrader) = 1000
   \<and> stopUntil (dailyReset (25 * hour) exampleTrader) = 0"
proof -
  have fires: "dailyResetFires (25 * hour) exampleTrader"
    by (simp add: dailyResetFires_def exampleTrader_def hour_def)
  from dailyReset_frame[OF fires] fires show ?thesis
    by (simp add: exampleTrader_def)
qed

lemma equityPeak_trackEquity: "equityPeak tr \<le> equityPeak (trackEquity currentEquity tr)"
  by (simp add: trackEquity_def Let_def)

lemma equityPeak_step:
  "equityPeak tr \<le> equityPeak (snd (CheckAndApplyRiskPause now currentEquity tr))"
  using equityPeak_trackEquity[of tr currentEquity]
  by (simp add: CheckAndApplyRiskPause_def Let_def split: prod.splits)

text \<open>
  Claim C10. The equity peak never decreases: one invocation of
  \<^verbatim>\<open>CheckAndApplyRiskPause\<close> leaves it at least as large as before, and along every
  sequence of invocations, with any equities, the peaks of the successive states (the
  starting state first) are in non-decreasing order.
\<close>

theorem equityPeak_monotone:
  "equityPeak tr \<le> equityPeak (snd (CheckAndApplyRiskPause now currentEquity tr))
   \<and> sorted (map equityPeak (tr # riskSession tr obs))"
proof
  show "equityPeak tr \<le> equityPeak (snd (CheckAndApplyRiskPause now currentEquity tr))"
    by (rule equityPeak_step)
  show "sorted (map equityPeak (tr # riskSession tr obs))"
  proof (induction obs arbitrary: tr)
    case Nil
    show ?case by simp
  next
    case (Cons ob obs)
    obtain t eq where ob: "ob = (t, eq)" by (cases ob)
    let ?tr' = "snd (CheckAndApplyRiskPause t eq tr)"
    have tl: "sorted (map equityPeak (?tr' # riskSession ?tr' obs))"
      by (rule Cons.IH)
    have "equityPeak tr \<le> equityPeak ?tr'"
      by (rule equityPeak_step)
    with tl show ?case
      unfolding ob by (auto simp: Let_def intro: order_trans)
  qed
qed

section \<open>Properties of the sequencer\<close>

lemma mset_innerLoop: "i < j \<Longrightarrow> mset (innerLoop i j xs) = mset xs"
proof (induction i j xs rule: innerLoop.induct)
  case (1 i j xs)
  show ?case
  proof (cases "j < length xs")
    case True
    let ?xs' = "if getActionPriority (Action (xs ! i)) > getActionPriority (Action (xs ! j))
                then swap i j xs else xs"
    have "mset ?xs' = mset xs"
      using True "1.prems" by (simp add: swap_def mset_swap)
    moreover have "mset (innerLoop i (Suc j) ?xs') = mset ?xs'"
      using "1.IH"[OF True] "1.prems" by simp
    ultimately show ?thesis
      using True by (subst innerLoop.simps) simp
  next
    case False
    then show ?thesis by (subst innerLoop.simps) simp
  qed
qed

lemma take_innerLoop: "i < j \<Longrightarrow> take i (innerLoop i j xs) = take i xs"
proof (induction i j xs rule: innerLoop.induct)
  case (1 i j xs)
  show ?case
  proof (cases "j < length xs")
    case True
    let ?xs' = "if getActionPriority (Action (xs ! i)) > getActionPriority (Action (xs ! j))
                then swap i j xs else xs"
    have "take i ?xs' = take i xs"
      using "1.prems" by (simp add: swap_def)
    moreover have "take i (innerLoop i (Suc j) ?xs') = take i ?xs'"
      using "1.IH"[OF True] "1.prems" by simp
    ultimately show ?thesis
      using True by (subst innerLoop.simps) simp
  next
    case False
    then show ?thesis by (subst innerLoop.simps) simp
  qed
qed

text \<open>
  After the inner loop the element at \<open>i\<close> has the least priority number among those
  from \<open>i\<close> on, provided it had the least among those before \<open>j\<close>.
\<close>

lemma min_innerLoop:
  "i < j \<Longrightarrow> j \<le> length xs \<Longrightarrow>
   \<forall>k. i < k \<and> k < j \<longrightarrow>
       getActionPriority (Action (xs ! i)) \<le> getActionPriority (Action (xs ! k)) \<Longrightarrow>
   i < k \<Longrightarrow> k < length xs \<Longrightarrow>
   getActionPriority (Action (innerLoop i j xs ! i))
     \<le> getActionPriority (Action (innerLoop i j xs ! k))"
proof (induction i j xs rule: innerLoop.induct)
  case (1 i j xs)
  let ?p = "\<lambda>d. getActionPriority (Action d)"
  show ?case
  proof (cases "j < length xs")
    case True
    let ?xs' = "if ?p (xs ! i) > ?p (xs ! j) then swap i j xs else xs"
    have len: "length ?xs' = length xs" by (simp add: swap_def)
    have inv: "\<forall>k. i < k \<and> k < Suc j \<longrightarrow> ?p (?xs' ! i) \<le> ?p (?xs' ! k)"
    proof (intro allI impI)
      fix k assume k: "i < k \<and> k < Suc j"
      show "?p (?xs' ! i) \<le> ?p (?xs' ! k)"
      proof (cases "?p (xs ! i) > ?p (xs ! j)")
        case exch: True
        have at_i: "swap i j xs ! i = xs ! j"
          using True "1.prems"(1) by (simp add: swap_def)
        show ?thesis
        proof (cases "k = j")
          case True
          then have "swap i j xs ! k = xs ! i"
            using \<open>j < length xs\<close> by (simp add: swap_def)
          with at_i exch show ?thesis by simp
        next
          case False
          with k have kj: "k < j" by simp
          then have "swap i j xs ! k = xs ! k" using k by (simp add: swap_def)
          moreover have "?p (xs ! i) \<le> ?p (xs ! k)" using "1.prems"(3) k kj by simp
          ultimately show ?thesis using at_i exch by simp
        qed
      next
        case keep: False
        show ?thesis
        proof (cases "k = j")
          case True
          with keep show ?thesis by simp
        next
          case False
          with k have "k < j" by simp
          with "1.prems"(3) k keep show ?thesis by simp
        qed
      qed
    qed
    have "?p (innerLoop i (Suc j) ?xs' ! i) \<le> ?p (innerLoop i (Suc j) ?xs' ! k)"
      using "1.IH"[OF True _ _ inv] "1.prems" True len by simp
    then show ?thesis using True by (subst (1 2) innerLoop.simps) simp
  next
    case False
    with "1.prems" have "j = length xs" by simp
    with "1.prems" show ?thesis by (subst (1 2) innerLoop.simps) simp
  qed
qed

lemma in_set_drop_nth:
  "x \<in> set (drop n xs) \<longleftrightarrow> (\<exists>k. n \<le> k \<and> k < length xs \<and> x = xs ! k)"
proof
  assume "x \<in> set (drop n xs)"
  then obtain i where i: "i < length (drop n xs)" "drop n xs ! i = x"
    by (auto simp: in_set_conv_nth)
  then have "n + i < length xs" "x = xs ! (n + i)" by auto
  then show "\<exists>k. n \<le> k \<and> k < length xs \<and> x = xs ! k"
    by (intro exI[of _ "n + i"]) simp
next
  assume "\<exists>k. n \<le> k \<and> k < length xs \<and> x = xs ! k"
  then obtain k where k: "n \<le> k" "k < length xs" "x = xs ! k" by blast
  then have "k - n < length (drop n xs)" "drop n xs ! (k - n) = x" by auto
  then show "x \<in> set (drop n xs)" by (metis nth_mem)
qed

lemma mset_drop_innerLoop:
  assumes "i < j"
  shows "mset (drop i (innerLoop i j xs)) = mset (drop i xs)"
proof -
  have "mset (take i (innerLoop i j xs)) + mset (drop i (innerLoop i j xs))
          = mset (take i xs) + mset (drop i xs)"
    using mset_innerLoop[OF assms, of xs] by (simp flip: mset_append)
  then show ?thesis using take_innerLoop[OF assms, of xs] by simp
qed

lemma sortedUpTo_step:
  assumes inv: "sortedUpTo i xs" and i: "i + 1 < length xs"
  shows "sortedUpTo (Suc i) (innerLoop i (Suc i) xs)"
proof -
  let ?p = "\<lambda>d. getActionPriority (Action d)"
  let ?ys = "innerLoop i (Suc i) xs"
  have len: "length ?ys = length xs" by (rule length_innerLoop)
  have tk: "take i ?ys = take i xs" by (rule take_innerLoop) simp
  have dr: "set (drop i ?ys) = set (drop i xs)"
    using mset_drop_innerLoop[of i "Suc i" xs] by (metis lessI set_mset_mset)
  have tkS: "take (Suc i) ?ys = take i xs @ [?ys ! i]"
    using i len tk by (simp add: take_Suc_conv_app_nth)
  have yi: "?ys ! i \<in> set (drop i xs)"
  proof -
    have "?ys ! i \<in> set (drop i ?ys)"
      unfolding in_set_drop_nth using i len by (intro exI[of _ i]) simp
    with dr show ?thesis by simp
  qed
  have least: "\<And>k. i < k \<Longrightarrow> k < length xs \<Longrightarrow> ?p (?ys ! i) \<le> ?p (?ys ! k)"
    using min_innerLoop[of i "Suc i" xs] i by simp
  have s1: "sorted (map ?p (take (Suc i) ?ys))"
    using inv yi unfolding sortedUpTo_def tkS by (auto simp: sorted_append)
  have s2: "\<forall>a \<in> set (take (Suc i) ?ys). \<forall>b \<in> set (drop (Suc i) ?ys). ?p a \<le> ?p b"
  proof (intro ballI)
    fix a b
    assume a: "a \<in> set (take (Suc i) ?ys)" and b: "b \<in> set (drop (Suc i) ?ys)"
    from b obtain k where k: "Suc i \<le> k" "k < length xs" "b = ?ys ! k"
      using len by (auto simp: in_set_drop_nth)
    from a have "a \<in> set (take i xs) \<or> a = ?ys ! i" unfolding tkS by auto
    then show "?p a \<le> ?p b"
    proof
      assume "a \<in> set (take i xs)"
      moreover have "b \<in> set (drop i xs)"
        using b dr set_drop_subset_set_drop[of i "Suc i" ?ys] by auto
      ultimately show ?thesis using inv by (simp add: sortedUpTo_def)
    next
      assume "a = ?ys ! i"
      with least[of k] k show ?thesis by simp
    qed
  qed
  from s1 s2 show ?thesis by (simp add: sortedUpTo_def)
qed

lemma sorted_outerLoop:
  "sortedUpTo i xs \<Longrightarrow> sorted (map (\<lambda>d. getActionPriority (Action d)) (outerLoop i xs))"
proof (induction i xs rule: outerLoop.induct)
  case (1 i xs)
  let ?p = "\<lambda>d. getActionPriority (Action d)"
  show ?case
  proof (cases "i + 1 < length xs")
    case True
    from "1.IH"[OF True sortedUpTo_step[OF "1.prems" True]] True
    show ?thesis by (subst outerLoop.simps) simp
  next
    case False
    have "sorted (map ?p (take i xs @ drop i xs))"
    proof -
      have "length (drop i xs) \<le> 1" using False by simp
      then have "sorted (map ?p (drop i xs))"
        by (cases "drop i xs") (auto simp: Suc_le_eq)
      with "1.prems" show ?thesis
        unfolding map_append sorted_append by (auto simp: sortedUpTo_def)
    qed
    then show ?thesis using False by (subst outerLoop.simps) simp
  qed
qed

lemma mset_outerLoop: "mset (outerLoop i xs) = mset xs"
proof (induction i xs rule: outerLoop.induct)
  case (1 i xs)
  show ?case
  proof (cases "i + 1 < length xs")
    case True
    with "1.IH"[OF True] show ?thesis
      by (subst outerLoop.simps) (simp add: mset_innerLoop)
  next
    case False
    then show ?thesis by (subst outerLoop.simps) simp
  qed
qed

text \<open>
  Claim C6, as the code has it. For every list of decisions,
  \<^verbatim>\<open>sortDecisionsByPriority\<close> returns a permutation of its input in order of priority
  class: closes and partial closes (1), then stop-loss and take-profit updates (2), then
  opens (3), then hold and wait (4), and any other action last (999). The input actions
  open_long, close_short, hold come out as close_short, open_long, hold. The order of
  decisions of one class is not part of the statement.
\<close>

theorem sortDecisionsByPriority_sorted_permutation:
  "mset (sortDecisionsByPriority decisions) = mset decisions
   \<and> sorted (map (\<lambda>d. getActionPriority (Action d)) (sortDecisionsByPriority decisions))
   \<and> map getActionPriority
        [''close_long'', ''close_short'', ''partial_close'', ''update_stop_loss'',
         ''update_take_profit'', ''open_long'', ''open_short'', ''hold'', ''wait'']
       = [1, 1, 1, 2, 2, 3, 3, 4, 4]
   \<and> getActionPriority action \<le> 999
   \<and> map Action (sortDecisionsByPriority
        [mkDecision ''SOLUSDT'' ''open_long'', mkDecision ''ETHUSDT'' ''close_short'',
         mkDecision ''BTCUSDT'' ''hold''])
       = [''close_short'', ''open_long'', ''hold'']"
proof -
  let ?p = "\<lambda>d. getActionPriority (Action d)"
  have "sortedUpTo 0 decisions" by (simp add: sortedUpTo_def)
  then have "sorted (map ?p (outerLoop 0 decisions))" by (rule sorted_outerLoop)
  moreover have "length decisions \<le> 1 \<Longrightarrow> sorted (map ?p decisions)"
    by (cases decisions) (auto simp: Suc_le_eq)
  ultimately have srt: "sorted (map ?p (sortDecisionsByPriority decisions))"
    by (simp add: sortDecisionsByPriority_def)
  have perm: "mset (sortDecisionsByPriority decisions) = mset decisions"
    by (simp add: sortDecisionsByPriority_def mset_outerLoop)
  have classes: "map getActionPriority
        [''close_long'', ''close_short'', ''partial_close'', ''update_stop_loss'',
         ''update_take_profit'', ''open_long'', ''open_short'', ''hold'', ''wait'']
       = [1, 1, 1, 2, 2, 3, 3, 4, 4]"
    by (simp add: getActionPriority_def)
  have last: "getActionPriority action \<le> 999"
    by (simp add: getActionPriority_def)
  have ex: "map Action (sortDecisionsByPriority
        [mkDecision ''SOLUSDT'' ''open_long'', mkDecision ''ETHUSDT'' ''close_short'',
         mkDecision ''BTCUSDT'' ''hold''])
       = [''close_short'', ''open_long'', ''hold'']"
    by (simp add: sortDecisionsByPriority_def outerLoop.simps innerLoop.simps swap_def
        mkDecision_def getActionPriority_def)
  from perm srt classes last ex show ?thesis by blast
qed

text \<open>
  Claim C6 as stated fails in its stability: of two opens followed by a close, the
  exchange in the first pass of the inner loop puts the first open last, so the two opens
  come out in the opposite order, where a stable sort keeps them.
\<close>

theorem sortDecisionsByPriority_not_stable:
  "sortDecisionsByPriority
     [mkDecision ''SOLUSDT'' ''open_long'', mkDecision ''ETHUSDT'' ''open_short'',
      mkDecision ''BTCUSDT'' ''close_long'']
     = [mkDecision ''BTCUSDT'' ''close_long'', mkDecision ''ETHUSDT'' ''open_short'',
        mkDecision ''SOLUSDT'' ''open_long'']
   \<and> stableSortByPriority
     [mkDecision ''SOLUSDT'' ''open_long'', mkDecision ''ETHUSDT'' ''open_short'',
      mkDecision ''BTCUSDT'' ''close_long'']
     = [mkDecision ''BTCUSDT'' ''close_long'', mkDecision ''SOLUSDT'' ''open_long'',
        mkDecision ''ETHUSDT'' ''open_short'']"
  by (simp add: sortDecisionsByPriority_def outerLoop.simps innerLoop.simps swap_def
      stableSortByPriority_def mkDecision_def getActionPriority_def)

section \<open>Properties of the size adjustment\<close>

lemma cooldownScan_filter:
  "cooldownScan now smb sd ts =
     (case filter (\<lambda>t. TradeSymbol t = smb \<and> TradeSide t = sd) ts of
        [] \<Rightarrow> False
      | t # _ \<Rightarrow> PnLPct t \<le> -15 \<and> now - CloseTime t < 90 * minute)"
  by (induction ts) auto

lemma recentLossCooldownFlag_last:
  "recentLossCooldownFlag now trades d =
     (filter (sameMarket d) trades \<noteq> []
      \<and> largeRecentLoss now (last (filter (sameMarket d) trades)))"
proof -
  let ?P = "\<lambda>t. TradeSymbol t = Symbol d \<and> TradeSide t = sideOfAction (Action d)"
  have eq: "sameMarket d = ?P" by (auto simp: sameMarket_def)
  show ?thesis
  proof (cases "filter ?P trades = []")
    case True
    then have "filter ?P (rev trades) = []" by (simp flip: rev_filter)
    with True show ?thesis
      by (simp add: recentLossCooldownFlag_def cooldownScan_filter eq)
  next
    case False
    then obtain t ts where r: "rev (filter ?P trades) = t # ts"
      by (cases "rev (filter ?P trades)") auto
    then have l: "last (filter ?P trades) = t"
      by (metis hd_rev list.sel(1))
    from r have "filter ?P (rev trades) = t # ts" by (simp add: rev_filter)
    with False l show ?thesis
      by (simp add: recentLossCooldownFlag_def cooldownScan_filter eq largeRecentLoss_def)
  qed
qed

text \<open>
  Claim C7, as the code has it. For an open decision the size is computed by the sizing
  engine with the cooldown flag \<open>recentLossCooldownFlag\<close>; the flag is set exactly when
  the last trade outcome of the same symbol and side in the list of recent trades closed
  within the last 90 minutes with a profit of at most minus 15 percent; and the flag is
  not set when no trade outcome of the same symbol and side did.
\<close>

theorem recentLossCooldown_latest_trade:
  assumes "Action d = ''open_long'' \<or> Action d = ''open_short''"
  shows "PositionSizeUSD (adjustDecision env now d) =
           (let size = ComputeAdjustedSize
                         (if PositionSizeUSD d \<le> 0 then 0 else PositionSizeUSD d)
                         (Leverage d) (envAvailable env) takerFeeRate (envWinRate env)
                         (envProfitFactor env) (real_of_int (Confidence d))
                         (recentLossCooldownFlag now (envRecentTrades env) d)
            in if envHadRecentMarginError env \<and> size > 0 then size * 0.85 else size)
       \<and> recentLossCooldownFlag now (envRecentTrades env) d =
           (filter (sameMarket d) (envRecentTrades env) \<noteq> []
            \<and> largeRecentLoss now (last (filter (sameMarket d) (envRecentTrades env))))
       \<and> (\<not> (\<exists>t \<in> set (envRecentTrades env). sameMarket d t \<and> largeRecentLoss now t)
            \<longrightarrow> \<not> recentLossCooldownFlag now (envRecentTrades env) d)"
proof -
  let ?ms = "filter (sameMarket d) (envRecentTrades env)"
  have size: "PositionSizeUSD (adjustDecision env now d) =
           (let size = ComputeAdjustedSize
                         (if PositionSizeUSD d \<le> 0 then 0 else PositionSizeUSD d)
                         (Leverage d) (envAvailable env) takerFeeRate (envWinRate env)
                         (envProfitFactor env) (real_of_int (Confidence d))
                         (recentLossCooldownFlag now (envRecentTrades env) d)
            in if envHadRecentMarginError env \<and> size > 0 then size * 0.85 else size)"
    using assms by (auto simp: adjustDecision_def Let_def)
  have latest: "recentLossCooldownFlag now (envRecentTrades env) d =
           (?ms \<noteq> [] \<and> largeRecentLoss now (last ?ms))"
    by (rule recentLossCooldownFlag_last)
  have none: "\<not> (\<exists>t \<in> set (envRecentTrades env). sameMarket d t \<and> largeRecentLoss now t)
            \<longrightarrow> \<not> recentLossCooldownFlag now (envRecentTrades env) d"
  proof (intro impI notI)
    assume no: "\<not> (\<exists>t \<in> set (envRecentTrades env). sameMarket d t \<and> largeRecentLoss now t)"
    assume "recentLossCooldownFlag now (envRecentTrades env) d"
    with latest have ne: "?ms \<noteq> []" and loss: "largeRecentLoss now (last ?ms)" by simp_all
    from ne have "last ?ms \<in> set ?ms" by (rule last_in_set)
    with loss no show False by auto
  qed
  from size latest none show ?thesis by blast
qed

text \<open>
  An open decision for BTCUSDT ten minutes after a long trade in it lost 20 percent: the
  flag is set.
\<close>

theorem recentLossCooldown_latest_trade_witness:
  "Action (mkDecision ''BTCUSDT'' ''open_long'') = ''open_long''
   \<and> recentLossCooldownFlag (10 * minute) [winTrade, lossTrade]
        (mkDecision ''BTCUSDT'' ''open_long'')
   \<and> last (filter (sameMarket (mkDecision ''BTCUSDT'' ''open_long'')) [winTrade, lossTrade])
       = lossTrade"
proof -
  let ?env = "\<lparr>envAvailable = 1000, envHadRecentMarginError = False, envWinRate = 50,
               envProfitFactor = 1.2, envRecentTrades = [winTrade, lossTrade]\<rparr>"
  have act: "Action (mkDecision ''BTCUSDT'' ''open_long'') = ''open_long''"
    by (simp add: mkDecision_def)
  have "Action (mkDecision ''BTCUSDT'' ''open_long'') = ''open_long''
        \<or> Action (mkDecision ''BTCUSDT'' ''open_long'') = ''open_short''"
    using act by simp
  from recentLossCooldown_latest_trade[OF this, of ?env "10 * minute"] act
  show ?thesis
    by (simp add: sameMarket_def largeRecentLoss_def winTrade_def lossTrade_def
        mkDecision_def sideOfAction_def minute_def)
qed

text \<open>
  Claim C7 as stated fails when a trade of the same symbol and side was recorded after
  the loss: the long trade in BTCUSDT closed ten minutes ago with minus 20 percent, but
  the winning trade after it is the one the loop finds, and the flag is not set.
\<close>

theorem recentLossCooldown_earlier_loss_ignored:
  "\<not> recentLossCooldownFlag (10 * minute) [lossTrade, winTrade]
        (mkDecision ''BTCUSDT'' ''open_long'')
   \<and> lossTrade \<in> set [lossTrade, winTrade]
   \<and> sameMarket (mkDecision ''BTCUSDT'' ''open_long'') lossTrade
   \<and> largeRecentLoss (10 * minute) lossTrade"
  by (simp add: recentLossCooldownFlag_def lossTrade_def winTrade_def mkDecision_def
      sideOfAction_def sameMarket_def largeRecentLoss_def minute_def)

section \<open>Properties of the drawdown monitor\<close>

lemma drawdownBreachWindow_UpdatePeakPnL [simp]:
  "drawdownBreachWindow (UpdatePeakPnL tk smb sd cur) = drawdownBreachWindow tk"
  by (simp add: UpdatePeakPnL_def Let_def split: option.splits)

lemma drawdownBreachCount_UpdatePeakPnL [simp]:
  "drawdownBreachCount (UpdatePeakPnL tk smb sd cur) = drawdownBreachCount tk"
  by (simp add: UpdatePeakPnL_def Let_def split: option.splits)





text \<open>A round of the monitor over a single position is the check of that position.\<close>

lemma checkPositionDrawdown_single:
  "checkPositionDrawdown trader tk (Some [pos])
     = checkPosition trader tk (pos_symbol pos) (pos_side pos) (currentPnLPctOf pos)"
  by (simp add: checkPositionDrawdown_def split: prod.splits)

text \<open>The check of a position leaves the peak and the counter of every other key alone.\<close>

lemma checkPosition_other_key:
  assumes "key \<noteq> posKeyOf smb sd"
  shows "peakPnLCache (fst (checkPosition trader tk smb sd cur)) key = peakPnLCache tk key
       \<and> drawdownBreachCount (fst (checkPosition trader tk smb sd cur)) key
           = drawdownBreachCount tk key"
  using assms
  by (auto simp: checkPosition_def Let_def UpdatePeakPnL_def ClearPeakPnLCache_def
      split: prod.splits option.splits)





section \<open>Properties of the position snapshots\<close>

text \<open>The snapshot takes its peak from the cache under the symbol of the position.\<close>

lemma buildPosition_peak_by_symbol:
  "buildPosition nowMs tk pos = Some (tk1, info) \<Longrightarrow>
     PeakPnLPct info = peakAt tk (pos_symbol pos)"
  by (auto simp: buildPosition_def Let_def peakAt_def split: if_splits option.splits)

text \<open>
  Claim C8 does not hold of the code. The monitor records the peak of the long position
  in BTCUSDT under the key \<open>BTCUSDT_long\<close>; \<^verbatim>\<open>buildTradingContext\<close> reads the cache
  under \<open>BTCUSDT\<close>, finds nothing there, and the snapshot carries a peak of 0 where the
  cache holds 12.5 for the position.
\<close>

theorem buildTradingContext_misses_peak:
  "peakPnLCache (UpdatePeakPnL (exampleTracker\<lparr>peakPnLCache := Map.empty\<rparr>)
       ''BTCUSDT'' ''long'' 12.5) (posKeyOf ''BTCUSDT'' ''long'') = Some 12.5
   \<and> map PeakPnLPct (snd (buildPositionInfos (\<lambda>k. 1000)
       (UpdatePeakPnL (exampleTracker\<lparr>peakPnLCache := Map.empty\<rparr>) ''BTCUSDT'' ''long'' 12.5)
       [btcLong])) = [0]"
  by (simp add: buildPositionInfos_def buildPosition_def btcLong_def UpdatePeakPnL_def
      exampleTracker_def posKeyOf_def peakAt_def leverageOf_def Let_def
      calculatePnLPercentage_def)

section \<open>Properties of the validation gate\<close>

lemma validateFrom_fails:
  "(validateFrom i ds eq bl al ctx \<noteq> None)
     = (\<exists>d \<in> set ds. validateDecision d eq bl al ctx \<noteq> None)"
  by (induction ds arbitrary: i) (auto split: option.splits)

text \<open>A batch in which every decision is valid is executed, sorted and adjusted.\<close>

lemma runCycle_executes_valid_batch:
  assumes "extract aiResponse = Inr decisions"
    and "\<forall>d \<in> set decisions.
           validateDecision d (TotalEquity ctx) (BTCETHLeverage ctx) (AltcoinLeverage ctx)
             (Some ctx) = None"
  shows "map_option executed
           (runCycleFromDecision env clock execute
              (GetFullDecisionWithCustomPrompt extract cotOf systemPrompt userPrompt now
                 (Inr aiResponse) ctx))
         = Some (adjustDecisionsByPerformance env clock (sortDecisionsByPriority decisions))"
proof -
  let ?v = "validateDecisions decisions (TotalEquity ctx) (BTCETHLeverage ctx)
              (AltcoinLeverage ctx) (Some ctx)"
  have "\<not> ?v \<noteq> None"
    unfolding validateDecisions_def validateFrom_fails using assms(2) by simp
  then have "?v = None" by (cases ?v) auto
  with assms(1) show ?thesis
    by (simp add: GetFullDecisionWithCustomPrompt_def parseFullDecisionResponse_def
        runCycleFromDecision_def Let_def emptyFullDecision_def)
qed

text \<open>
  Claim C2. When the parser has returned a batch of decisions and one of them fails its
  validation, \<^verbatim>\<open>validateDecisions\<close> returns an error for the batch,
  \<^verbatim>\<open>parseFullDecisionResponse\<close> returns that error together with the reasoning trace,
  and the cycle hands no decision of the batch to the execution, while the record it logs
  carries the failure, the error and the reasoning trace, and the error is returned.
\<close>

theorem validation_failure_discards_batch:
  assumes "extract aiResponse = Inr decisions"
    and "\<exists>d \<in> set decisions.
           validateDecision d (TotalEquity ctx) (BTCETHLeverage ctx) (AltcoinLeverage ctx)
             (Some ctx) \<noteq> None"
  shows "\<exists>n e.
           validateDecisions decisions (TotalEquity ctx) (BTCETHLeverage ctx)
               (AltcoinLeverage ctx) (Some ctx) = Some (n, e)
         \<and> snd (parseFullDecisionResponse extract cotOf aiResponse ctx)
             = Some (DecisionValidationFailed n e)
         \<and> CoTTrace (fst (parseFullDecisionResponse extract cotOf aiResponse ctx))
             = cotOf aiResponse
         \<and> (\<exists>out.
               runCycleFromDecision env clock execute
                 (GetFullDecisionWithCustomPrompt extract cotOf systemPrompt userPrompt now
                    (Inr aiResponse) ctx) = Some out
             \<and> executed out = []
             \<and> RecordDecisions (loggedRecord out) = []
             \<and> \<not> Success (loggedRecord out)
             \<and> ErrorMessage (loggedRecord out)
                 = Some (ResponseParseFailed (DecisionValidationFailed n e))
             \<and> RecordCoTTrace (loggedRecord out) = cotOf aiResponse
             \<and> returned out = Some (ResponseParseFailed (DecisionValidationFailed n e)))"
proof -
  let ?v = "validateDecisions decisions (TotalEquity ctx) (BTCETHLeverage ctx)
              (AltcoinLeverage ctx) (Some ctx)"
  have "?v \<noteq> None"
    unfolding validateDecisions_def validateFrom_fails using assms(2) .
  then obtain n e where v: "?v = Some (n, e)"
    by (cases ?v) auto
  have p: "parseFullDecisionResponse extract cotOf aiResponse ctx =
             (emptyFullDecision\<lparr>CoTTrace := cotOf aiResponse, Decisions := decisions\<rparr>,
              Some (DecisionValidationFailed n e))"
    using assms(1) v by (simp add: parseFullDecisionResponse_def)
  show ?thesis
    apply (rule exI[of _ n], rule exI[of _ e])
    using v p
    by (simp add: GetFullDecisionWithCustomPrompt_def runCycleFromDecision_def
        newRecord_def emptyFullDecision_def)
qed

text \<open>
  A batch of a valid hold and a decision with the unknown action \<open>buy\<close>: the second
  fails, and neither is executed.
\<close>

theorem validation_failure_discards_batch_witness:
  "validateDecision (mkDecision ''BTCUSDT'' ''hold'') 1000 5 10 (Some exampleContext) = None
   \<and> validateDecision (mkDecision ''ETHUSDT'' ''buy'') 1000 5 10 (Some exampleContext)
       = Some (InvalidAction ''buy'')
   \<and> map_option executed
        (runCycleFromDecision exampleEnv (\<lambda>k. 0) (\<lambda>d. True)
           (GetFullDecisionWithCustomPrompt (\<lambda>r. Inr exampleBatch) (\<lambda>r. ''trace'') [] [] 0
              (Inr ''response'') exampleContext)) = Some []
   \<and> map_option (\<lambda>out. RecordCoTTrace (loggedRecord out))
        (runCycleFromDecision exampleEnv (\<lambda>k. 0) (\<lambda>d. True)
           (GetFullDecisionWithCustomPrompt (\<lambda>r. Inr exampleBatch) (\<lambda>r. ''trace'') [] [] 0
              (Inr ''response'') exampleContext)) = Some ''trace''"
proof -
  have ok: "validateDecision (mkDecision ''BTCUSDT'' ''hold'') 1000 5 10 (Some exampleContext)
              = None"
    by (simp add: validateDecision_def mkDecision_def validActions_def)
  have bad: "validateDecision (mkDecision ''ETHUSDT'' ''buy'') 1000 5 10 (Some exampleContext)
               = Some (InvalidAction ''buy'')"
    by (simp add: validateDecision_def mkDecision_def validActions_def)
  have ext: "(\<lambda>r. Inr exampleBatch :: ParseError + Decision list) ''response''
               = Inr exampleBatch"
    by simp
  have ex: "\<exists>d \<in> set exampleBatch.
              validateDecision d (TotalEquity exampleContext) (BTCETHLeverage exampleContext)
                (AltcoinLeverage exampleContext) (Some exampleContext) \<noteq> None"
    using bad by (simp add: exampleBatch_def exampleContext_def)
  from validation_failure_discards_batch[OF ext ex, where cotOf = "\<lambda>r. ''trace''"
      and env = exampleEnv and clock = "\<lambda>k. 0" and execute = "\<lambda>d. True"
      and systemPrompt = "[]" and userPrompt = "[]" and now = 0]
  have "map_option executed
        (runCycleFromDecision exampleEnv (\<lambda>k. 0) (\<lambda>d. True)
           (GetFullDecisionWithCustomPrompt (\<lambda>r. Inr exampleBatch) (\<lambda>r. ''trace'') [] [] 0
              (Inr ''response'') exampleContext)) = Some []
      \<and> map_option (\<lambda>out. RecordCoTTrace (loggedRecord out))
        (runCycleFromDecision exampleEnv (\<lambda>k. 0) (\<lambda>d. True)
           (GetFullDecisionWithCustomPrompt (\<lambda>r. Inr exampleBatch) (\<lambda>r. ''trace'') [] [] 0
              (Inr ''response'') exampleContext)) = Some ''trace''"
    by auto
  with ok bad show ?thesis by blast
qed

section \<open>Properties of the response parser\<close>

lemma sanitizeModelResponse_fenced: "sanitizeModelResponse fencedResponse = holdObject"
  by code_simp

lemma unmarshalWrapper_holdObject: "unmarshalWrapper holdObject = Decoded [holdDecision]"
  by code_simp

lemma validateDecision_hold:
  "validateDecision holdDecision accountEquity btcEthLeverage altcoinLeverage ctx = None"
  by (simp add: validateDecision_def holdDecision_def zeroDecision_def validActions_def)

text \<open>
  Claim C5. The response that wraps the object
  \<^verbatim>\<open>{"decisions":[{"symbol":"BTCUSDT","action":"hold","reasoning":"x"}]}\<close> in a fenced
  code block is parsed without an error into exactly one decision, whose action is
  \<open>hold\<close>: the sanitizer takes the content of the fence, the first attempt of
  \<^verbatim>\<open>extractDecisionsStrict\<close> decodes it, and the decision passes the validation of
  \<^verbatim>\<open>parseFullDecisionResponse\<close>, whatever the context. The same holds of a fence
  without the label \<^verbatim>\<open>json\<close>, through the search for the object with the key
  \<^verbatim>\<open>decisions\<close>.
\<close>

theorem extractDecisionsStrict_fenced_hold:
  "extractDecisionsStrict fencedResponse = Extracted [holdDecision]
   \<and> extractDecisionsStrict plainFencedResponse = Extracted [holdDecision]
   \<and> length [holdDecision] = 1
   \<and> Action holdDecision = ''hold''
   \<and> parseFullDecisionResponse (\<lambda>response. Inr [holdDecision]) cotOf fencedResponse ctx
       = (emptyFullDecision\<lparr>CoTTrace := cotOf fencedResponse, Decisions := [holdDecision]\<rparr>,
          None)"
proof -
  have fenced: "extractDecisionsStrict fencedResponse = Extracted [holdDecision]"
    by (simp add: extractDecisionsStrict_def Let_def orElse_def
        sanitizeModelResponse_fenced unmarshalWrapper_holdObject)
  have plain: "extractDecisionsStrict plainFencedResponse = Extracted [holdDecision]"
    by code_simp
  have act: "Action holdDecision = ''hold''"
    by (simp add: holdDecision_def)
  have valid: "validateDecisions [holdDecision] (TotalEquity ctx) (BTCETHLeverage ctx)
                 (AltcoinLeverage ctx) (Some ctx) = None"
    by (simp add: validateDecisions_def validateDecision_hold)
  have full: "parseFullDecisionResponse (\<lambda>response. Inr [holdDecision]) cotOf
                fencedResponse ctx
       = (emptyFullDecision\<lparr>CoTTrace := cotOf fencedResponse, Decisions := [holdDecision]\<rparr>,
          None)"
    using valid by (simp add: parseFullDecisionResponse_def)
  from fenced plain act full show ?thesis by simp
qed

end
